theory Spec2Isabelle
  imports Complex_Main "HOL-Library.Word"
begin

unbundle bit_operations_syntax

text \<open>
  A shallow embedding of \<open>AdvancedMinecraftScanner\<close> (\<open>src/minecraft_scanner.js\<close>): the
  address generator, the VarInt reader and response parser, the enrichment of a parsed
  status, the rate limiter, the retry chain of \<open>checkMinecraftServer\<close>, and the statistics
  record with its updates. Everything the class reads from outside itself is a parameter of
  the function that reads it: the results of \<open>Math.random()\<close>, the readings of
  \<open>Date.now()\<close>, what the socket did, what \<open>JSON.parse\<close>, \<open>dns.reverse\<close> and the file system
  returned.
\<close>

section \<open>JavaScript strings and numbers\<close>

text \<open>
  A JavaScript string is a list of code units. The model uses \<open>string\<close>, whose characters
  are the code units below 256: every string the scanner builds itself (addresses, table
  keys, the indicator words) is ASCII, and the one non-ASCII unit its code names, the
  section sign U+00A7 of the formatting codes, is \<open>CHR 0xA7\<close>.
\<close>

definition is_digit :: "char \<Rightarrow> bool" where
  "is_digit c = (48 \<le> (of_char c :: nat) \<and> (of_char c :: nat) \<le> 57)"

definition digit_val :: "char \<Rightarrow> nat" where
  "digit_val c = of_char c - 48"

definition digit_char :: "nat \<Rightarrow> char" where
  "digit_char n = char_of (48 + n)"

text \<open>\<open>s.split(sep)\<close> for a one-character separator: the empty string splits into \<open>['']\<close>.\<close>

fun split_on :: "char \<Rightarrow> string \<Rightarrow> string list" where
  "split_on sep [] = [[]]"
| "split_on sep (c # cs) =
     (if c = sep then [] # split_on sep cs
      else (case split_on sep cs of [] \<Rightarrow> [[c]] | w # ws \<Rightarrow> (c # w) # ws))"

text \<open>\<open>xs.join(sep)\<close> on an array of strings.\<close>

fun join_with :: "string \<Rightarrow> string list \<Rightarrow> string" where
  "join_with sep [] = []"
| "join_with sep [x] = x"
| "join_with sep (x # y # ys) = x @ sep @ join_with sep (y # ys)"

text \<open>The decimal spelling of a non-negative integer, as \<open>String(n)\<close> gives it.\<close>

fun show_nat :: "nat \<Rightarrow> string" where
  "show_nat n = (if n < 10 then [digit_char n] else show_nat (n div 10) @ [digit_char (n mod 10)])"

declare show_nat.simps [simp del]

text \<open>The number a string of decimal digits spells.\<close>

definition dec_val :: "string \<Rightarrow> nat" where
  "dec_val s = foldl (\<lambda>a c. 10 * a + digit_val c) 0 s"

text \<open>
  \<open>parseInt(s)\<close> and \<open>Number(s)\<close>. The scanner applies them to the parts of dotted
  addresses and to the prefix length of its own CIDR constants, which are strings of decimal
  digits; there both give \<open>dec_val\<close>. \<open>NaN\<close> is the result on every other string, except that
  \<open>Number('')\<close> is 0. Spellings outside plain decimal digits that JavaScript would still
  read (a sign, an exponent, a \<open>0x\<close> prefix, surrounding blanks, a digit prefix followed by
  other text under \<open>parseInt\<close>) are not modelled and count as \<open>NaN\<close> here.
\<close>

datatype jsnum = Num nat | NaN | Hole  \<comment> \<open>\<open>Hole\<close>: an array slot never assigned\<close>

definition parseInt :: "string \<Rightarrow> jsnum" where
  "parseInt s = (if s \<noteq> [] \<and> list_all is_digit s then Num (dec_val s) else NaN)"

definition Number :: "string \<Rightarrow> jsnum" where
  "Number s = (if s = [] then Num 0 else parseInt s)"



text \<open>\<open>s.includes(v)\<close>: \<open>v\<close> occurs in \<open>s\<close> as a contiguous run.\<close>

fun starts_with :: "string \<Rightarrow> string \<Rightarrow> bool" where
  "starts_with s [] = True"
| "starts_with [] (v # vs) = False"
| "starts_with (c # cs) (v # vs) = (c = v \<and> starts_with cs vs)"

fun str_includes :: "string \<Rightarrow> string \<Rightarrow> bool" where
  "str_includes [] v = (v = [])"
| "str_includes (c # cs) v = (starts_with (c # cs) v \<or> str_includes cs v)"

text \<open>
  \<open>s.toLowerCase()\<close> on code units below 256: the letters A to Z and the accented capitals
  U+00C0 to U+00DE (the multiplication sign U+00D7 apart) move up by 32.
\<close>

definition lower_char :: "char \<Rightarrow> char" where
  "lower_char c =
     (let n = (of_char c :: nat)
      in if (65 \<le> n \<and> n \<le> 90) \<or> (192 \<le> n \<and> n \<le> 222 \<and> n \<noteq> 215) then char_of (n + 32) else c)"

definition toLowerCase :: "string \<Rightarrow> string" where
  "toLowerCase s = map lower_char s"

text \<open>
  \<open>s.trim()\<close>: white space and line terminators are removed at both ends. Below 256 these
  are tab, line feed, vertical tab, form feed, carriage return, space and the no-break space.
\<close>

definition is_space :: "char \<Rightarrow> bool" where
  "is_space c = ((of_char c :: nat) \<in> {9, 10, 11, 12, 13, 32, 160})"

definition trim :: "string \<Rightarrow> string" where
  "trim s = rev (dropWhile is_space (rev (dropWhile is_space s)))"

section \<open>Addresses\<close>

text \<open>
  \<^verbatim>\<open>
  isValidIP(ip) {
      const regex = /^(\d{1,3}\.){3}\d{1,3}$/;
      if (!regex.test(ip)) return false;
      return ip.split('.').every(octet => { const num = parseInt(octet);
                                            return num >= 0 && num <= 255; });
  }
  \<close>
  The expression matches exactly the strings whose split at the dots has four parts of one
  to three decimal digits each.
\<close>

definition regex_dotted_quad :: "string \<Rightarrow> bool" where
  "regex_dotted_quad ip =
     (let ps = split_on CHR ''.'' ip
      in length ps = 4 \<and> list_all (\<lambda>p. 1 \<le> length p \<and> length p \<le> 3 \<and> list_all is_digit p) ps)"

definition octet_in_range :: "string \<Rightarrow> bool" where
  "octet_in_range octet = (case parseInt octet of Num n \<Rightarrow> n \<le> 255 | _ \<Rightarrow> False)"

definition isValidIP :: "string \<Rightarrow> bool" where
  "isValidIP ip =
     (if \<not> regex_dotted_quad ip then False
      else list_all octet_in_range (split_on CHR ''.'' ip))"

text \<open>
  \<^verbatim>\<open>
  isPublicIP(ip) {
      if (!this.isValidIP(ip)) return false;
      const parts = ip.split('.').map(Number);
      const excludedChecks = [
          () => parts[0] === 10,
          () => parts[0] === 172 && parts[1] >= 16 && parts[1] <= 31,
          () => parts[0] === 192 && parts[1] === 168,
          () => parts[0] === 127,
          () => parts[0] === 169 && parts[1] === 254,
          () => parts[0] >= 224 ];
      return !excludedChecks.some(check => check());
  }
  \<close>
  The test is on the literal ranges above; \<open>config.excludeRanges\<close> is not read. A valid
  address has four parts, so \<open>parts[0]\<close> and \<open>parts[1]\<close> exist; a comparison with \<open>NaN\<close> or
  \<open>undefined\<close> is false.
\<close>

definition part_at :: "jsnum list \<Rightarrow> nat \<Rightarrow> jsnum" where
  "part_at parts i = (if i < length parts then parts ! i else Hole)"

fun num_eq :: "jsnum \<Rightarrow> nat \<Rightarrow> bool" where
  "num_eq (Num n) k = (n = k)"
| "num_eq _ k = False"

fun num_ge :: "jsnum \<Rightarrow> nat \<Rightarrow> bool" where
  "num_ge (Num n) k = (n \<ge> k)"
| "num_ge _ k = False"

fun num_le :: "jsnum \<Rightarrow> nat \<Rightarrow> bool" where
  "num_le (Num n) k = (n \<le> k)"
| "num_le _ k = False"

definition excludedChecks :: "jsnum list \<Rightarrow> bool list" where
  "excludedChecks parts =
     [num_eq (part_at parts 0) 10,
      num_eq (part_at parts 0) 172 \<and> num_ge (part_at parts 1) 16 \<and> num_le (part_at parts 1) 31,
      num_eq (part_at parts 0) 192 \<and> num_eq (part_at parts 1) 168,
      num_eq (part_at parts 0) 127,
      num_eq (part_at parts 0) 169 \<and> num_eq (part_at parts 1) 254,
      num_ge (part_at parts 0) 224]"

definition isPublicIP :: "string \<Rightarrow> bool" where
  "isPublicIP ip =
     (if \<not> isValidIP ip then False
      else let parts = map Number (split_on CHR ''.'' ip)
           in \<not> list_ex (\<lambda>check. check) (excludedChecks parts))"






section \<open>The Server List Ping reader\<close>

subsection \<open>Buffers and errors\<close>

text \<open>
  A Node \<open>Buffer\<close> is a list of bytes. Reading \<open>buffer[i]\<close> is guarded in the source by
  a length test that throws; the exception is the left summand of the result.
\<close>

type_synonym byte = "8 word"

datatype error =
    BufferOverflow   \<comment> \<open>\<open>throw new Error('Buffer overflow while reading VarInt')\<close>\<close>
  | SyntaxError      \<comment> \<open>thrown by \<open>JSON.parse\<close>\<close>
  | SocketThrow      \<comment> \<open>thrown by \<open>net.Socket\<close> while the ping is set up\<close>

subsection \<open>\<open>readVarInt\<close>\<close>

text \<open>
  \<^verbatim>\<open>
  readVarInt(buffer, offset) {
      let value = 0; let bytesRead = 0; let currentByte;
      do {
          if (offset + bytesRead >= buffer.length) throw new Error(...);
          currentByte = buffer[offset + bytesRead];
          value |= (currentByte & 0x7F) << (7 * bytesRead);
          bytesRead++;
      } while ((currentByte & 0x80) !== 0 && bytesRead < 5);
      return { value, bytesRead };
  }
  \<close>
  JavaScript's \<open>|=\<close> and \<open><<\<close> work on 32-bit integers, so the accumulator is a
  \<open>32 word\<close>; the number the caller sees is its signed reading (\<open>sint\<close>). The shift
  count \<open>7 * bytesRead\<close> is at most 28, below the 32 at which JavaScript reduces it.
\<close>

function readVarInt_loop :: "byte list \<Rightarrow> nat \<Rightarrow> 32 word \<Rightarrow> nat \<Rightarrow> error + (32 word \<times> nat)" where
  "readVarInt_loop buffer offset acc bytesRead =
     (if offset + bytesRead \<ge> length buffer then Inl BufferOverflow
      else
        let currentByte = buffer ! (offset + bytesRead);
            acc' = acc OR push_bit (7 * bytesRead) (ucast (currentByte AND 0x7F));
            bytesRead' = bytesRead + 1
        in if currentByte AND 0x80 \<noteq> 0 \<and> bytesRead' < 5
           then readVarInt_loop buffer offset acc' bytesRead'
           else Inr (acc', bytesRead'))"
  by pat_completeness auto
termination
  by (relation "measure (\<lambda>(buffer, offset, acc, bytesRead). 5 - bytesRead)") auto

declare readVarInt_loop.simps [simp del]

definition readVarInt :: "byte list \<Rightarrow> nat \<Rightarrow> error + (int \<times> nat)" where
  "readVarInt buffer offset =
     (case readVarInt_loop buffer offset 0 0 of
        Inl e \<Rightarrow> Inl e
      | Inr (acc, bytesRead) \<Rightarrow> Inr (sint acc, bytesRead))"

subsection \<open>\<open>parseServerResponse\<close>\<close>

text \<open>
  The parsed status. The fields are typed as the Server List Ping status is: a field that
  is present has its documented type (the version name a string, the player counts integers,
  the description a string or an object with \<open>text\<close> and \<open>extra\<close>). A field is \<open>None\<close>
  when the object, or the object holding it, is absent: \<open>rawInfo.version?.name\<close> is
  \<open>version_name\<close>. \<open>json_text\<close> is what \<open>JSON.stringify(rawInfo)\<close> returns.
\<close>

datatype description =
    NoDescription
  | DescriptionString string
  | DescriptionObject "string option" "string option list option"
      \<comment> \<open>\<open>.text\<close>, and \<open>.extra\<close> as the \<open>.text\<close> of each of its parts\<close>

record rawInfo =
  version_name :: "string option"
  version_protocol :: "int option"
  raw_online :: "int option"
  raw_max :: "int option"
  raw_sample :: "(string \<times> string) list option"
  raw_description :: description
  raw_favicon :: "string option"
  json_text :: string

text \<open>
  \<open>JSON.parse\<close> is a parameter: it throws (\<open>Inl\<close>), returns a value that is falsy
  (\<open>Inr None\<close>: \<open>null\<close>, \<open>false\<close>, \<open>0\<close>, the empty string), or returns a status. It is
  given the bytes of the text; \<open>toString('utf8')\<close> is part of it.

  \<^verbatim>\<open>
  parseServerResponse(buffer) {
      if (!buffer || buffer.length < 2) return null;
      try {
          let offset = 0;
          const { value: packetLength, bytesRead } = this.readVarInt(buffer, offset);
          offset += bytesRead;
          if (packetLength <= 0 || offset >= buffer.length) return null;
          const { bytesRead: packetIdBytes } = this.readVarInt(buffer, offset);
          offset += packetIdBytes;
          const { value: jsonLength, bytesRead: jsonLengthBytes } = this.readVarInt(buffer, offset);
          offset += jsonLengthBytes;
          if (jsonLength <= 0 || offset + jsonLength > buffer.length) return null;
          const jsonData = buffer.slice(offset, offset + jsonLength).toString('utf8');
          return JSON.parse(jsonData);
      } catch (error) {
          const responseString = buffer.toString('utf8');
          const jsonMatch = responseString.match(/{.*}/);
          if (jsonMatch) { try { return JSON.parse(jsonMatch[0]); } catch (e) { return null; } }
          return null;
      }
  }
  \<close>
\<close>

type_synonym json_parser = "byte list \<Rightarrow> error + rawInfo option"

definition strict_parse :: "json_parser \<Rightarrow> byte list \<Rightarrow> error + rawInfo option" where
  "strict_parse json_parse buffer =
     (case readVarInt buffer 0 of
        Inl e \<Rightarrow> Inl e
      | Inr (packetLength, bytesRead) \<Rightarrow>
          let offset = bytesRead
          in if packetLength \<le> 0 \<or> offset \<ge> length buffer then Inr None
             else
               (case readVarInt buffer offset of
                  Inl e \<Rightarrow> Inl e
                | Inr (packetId, packetIdBytes) \<Rightarrow>
                    let offset = offset + packetIdBytes
                    in (case readVarInt buffer offset of
                          Inl e \<Rightarrow> Inl e
                        | Inr (jsonLength, jsonLengthBytes) \<Rightarrow>
                            let offset = offset + jsonLengthBytes
                            in if jsonLength \<le> 0 \<or> int offset + jsonLength > int (length buffer)
                               then Inr None
                               else json_parse (take (nat jsonLength) (drop offset buffer)))))"

text \<open>
  The fallback expression \<open>/{.*}/\<close> on the UTF-8 text: the dot stops at a line terminator
  (line feed, carriage return, U+2028, U+2029; the last two are the bytes E2 80 A8 and
  E2 80 A9), the star is greedy. The match starts at the first \<open>{\<close> that has a \<open>}\<close> after
  it on its line and ends at the last \<open>}\<close> of that line.
\<close>

fun take_line :: "byte list \<Rightarrow> byte list" where
  "take_line [] = []"
| "take_line (b # bs) =
     (if b = 0x0A \<or> b = 0x0D \<or> (b = 0xE2 \<and> (take 2 bs = [0x80, 0xA8] \<or> take 2 bs = [0x80, 0xA9]))
      then [] else b # take_line bs)"

definition up_to_last :: "byte \<Rightarrow> byte list \<Rightarrow> byte list" where
  "up_to_last x line = rev (dropWhile (\<lambda>c. c \<noteq> x) (rev line))"

fun match_braces :: "byte list \<Rightarrow> byte list option" where
  "match_braces [] = None"
| "match_braces (b # bs) =
     (if b = 0x7B \<and> 0x7D \<in> set (take_line bs) then Some (b # up_to_last 0x7D (take_line bs))
      else match_braces bs)"

definition parseServerResponse :: "json_parser \<Rightarrow> byte list \<Rightarrow> rawInfo option" where
  "parseServerResponse json_parse buffer =
     (if length buffer < 2 then None
      else
        (case strict_parse json_parse buffer of
           Inr r \<Rightarrow> r
         | Inl error \<Rightarrow>
             (case match_braces buffer of
                Some jsonMatch \<Rightarrow> (case json_parse jsonMatch of Inr r \<Rightarrow> r | Inl e \<Rightarrow> None)
              | None \<Rightarrow> None)))"

section \<open>Enrichment\<close>

text \<open>
  The record \<open>enhanceServerInfo\<close> builds. \<open>protocol\<close> is the protocol number or the string
  \<open>'Unknown'\<close>; \<open>location\<close> is \<open>null\<close> (\<open>None\<close>) until geolocation sets it.
\<close>

datatype protocol = Protocol int | UnknownProtocol

record serverInfo =
  ip :: string
  server_port :: nat
  timestamp :: string
  responseTime :: int
  version :: string
  protocol :: protocol
  players_online :: int
  players_max :: int
  players_sample :: "(string \<times> string) list"
  description :: string
  motd :: string
  favicon :: string
  modded :: bool
  location :: "string option"
  country :: string
  qualityScore :: nat
  raw :: string

text \<open>
  \<^verbatim>\<open>
  extractVersion(rawInfo) {
      if (rawInfo.version?.name) return rawInfo.version.name;
      return 'Unknown';
  }
  extractDescription(rawInfo) {
      if (typeof rawInfo.description === 'string') return rawInfo.description;
      if (rawInfo.description?.text) return rawInfo.description.text;
      if (rawInfo.description?.extra)
          return rawInfo.description.extra.map(part => part.text || '').join('');
      return 'No description';
  }
  extractMOTD(rawInfo) {
      const desc = this.extractDescription(rawInfo);
      return desc.replace(/\<section>[0-9a-fk-or]/g, '').trim();
  }
  \<close>
  A string is truthy when it is not empty; an array is truthy even when empty.
\<close>

definition extractVersion :: "rawInfo \<Rightarrow> string" where
  "extractVersion rawInfo =
     (case version_name rawInfo of
        Some n \<Rightarrow> if n \<noteq> [] then n else ''Unknown''
      | None \<Rightarrow> ''Unknown'')"

fun extractDescription_of :: "description \<Rightarrow> string" where
  "extractDescription_of (DescriptionString s) = s"
| "extractDescription_of (DescriptionObject text_field extra) =
     (if (case text_field of Some t \<Rightarrow> t \<noteq> [] | None \<Rightarrow> False) then the text_field
      else (case extra of
              Some parts \<Rightarrow> concat (map (\<lambda>part. case part of Some t \<Rightarrow> t | None \<Rightarrow> []) parts)
            | None \<Rightarrow> ''No description''))"
| "extractDescription_of NoDescription = ''No description''"

definition extractDescription :: "rawInfo \<Rightarrow> string" where
  "extractDescription rawInfo = extractDescription_of (raw_description rawInfo)"

definition is_format_code :: "char \<Rightarrow> bool" where
  "is_format_code c =
     (let n = (of_char c :: nat)
      in (48 \<le> n \<and> n \<le> 57) \<or> (97 \<le> n \<and> n \<le> 102) \<or> (107 \<le> n \<and> n \<le> 111) \<or> n = 114)"

fun strip_format_codes :: "string \<Rightarrow> string" where
  "strip_format_codes (c # d # cs) =
     (if c = CHR 0xA7 \<and> is_format_code d then strip_format_codes cs
      else c # strip_format_codes (d # cs))"
| "strip_format_codes cs = cs"

definition extractMOTD :: "rawInfo \<Rightarrow> string" where
  "extractMOTD rawInfo = trim (strip_format_codes (extractDescription rawInfo))"

text \<open>
  \<^verbatim>\<open>
  detectModded(rawInfo) {
      const indicators = ['forge', 'fabric', 'bukkit', 'spigot', 'paper', 'sponge',
                          'mod', 'plugin', 'cauldron', 'mohist', 'magma'];
      const searchText = JSON.stringify(rawInfo).toLowerCase();
      return indicators.some(indicator => searchText.includes(indicator));
  }
  \<close>
\<close>

definition detectModded :: "rawInfo \<Rightarrow> bool" where
  "detectModded rawInfo =
     (let indicators = [''forge'', ''fabric'', ''bukkit'', ''spigot'', ''paper'', ''sponge'',
                        ''mod'', ''plugin'', ''cauldron'', ''mohist'', ''magma''];
          searchText = toLowerCase (json_text rawInfo)
      in list_ex (\<lambda>indicator. str_includes searchText indicator) indicators)"

text \<open>
  Geolocation. \<open>dns.reverse(ip)\<close> is a parameter: the host names it resolves to, or
  \<open>None\<close> when it rejects.
  \<^verbatim>\<open>
  async getServerLocation(ip) {
      try {
          const hostnames = await dns.reverse(ip);
          if (hostnames && hostnames.length > 0)
              return this.extractLocationFromHostname(hostnames[0]);
      } catch (error) { }
      return 'Unknown';
  }
  extractLocationFromHostname(hostname) {
      const locationIndicators = { 'us': 'United States', ... , 'cn': 'China' };
      for (const [code, country] of Object.entries(locationIndicators))
          if (hostname.toLowerCase().includes(code)) return country;
      return 'Unknown';
  }
  extractCountry(location) { return location === 'Unknown' ? 'Unknown' : location; }
  \<close>
\<close>

definition locationIndicators :: "(string \<times> string) list" where
  "locationIndicators =
     [(''us'', ''United States''), (''uk'', ''United Kingdom''), (''de'', ''Germany''),
      (''fr'', ''France''), (''nl'', ''Netherlands''), (''au'', ''Australia''),
      (''ca'', ''Canada''), (''jp'', ''Japan''), (''kr'', ''South Korea''),
      (''br'', ''Brazil''), (''ru'', ''Russia''), (''cn'', ''China'')]"

fun first_indicator :: "(string \<times> string) list \<Rightarrow> string \<Rightarrow> string" where
  "first_indicator [] hostname = ''Unknown''"
| "first_indicator ((code, country_name) # entries) hostname =
     (if str_includes (toLowerCase hostname) code then country_name
      else first_indicator entries hostname)"

definition extractLocationFromHostname :: "string \<Rightarrow> string" where
  "extractLocationFromHostname hostname = first_indicator locationIndicators hostname"

definition getServerLocation :: "string list option \<Rightarrow> string" where
  "getServerLocation dns_reverse =
     (case dns_reverse of
        Some (hostname # hostnames) \<Rightarrow> extractLocationFromHostname hostname
      | _ \<Rightarrow> ''Unknown'')"

definition extractCountry :: "string \<Rightarrow> string" where
  "extractCountry loc = (if loc = ''Unknown'' then ''Unknown'' else loc)"

text \<open>
  \<^verbatim>\<open>
  calculateQualityScore(serverInfo) {
      let score = 0;
      if (serverInfo.players.online > 0) score += 20;
      if (serverInfo.players.online > 10) score += 20;
      if (serverInfo.players.online > 50) score += 20;
      if (serverInfo.motd && serverInfo.motd.length > 10) score += 15;
      const knownVersions = ['1.21', '1.20', '1.19', '1.18'];
      if (knownVersions.some(v => serverInfo.version.includes(v))) score += 15;
      if (serverInfo.responseTime < 100) score += 10;
      return Math.min(score, 100);
  }
  \<close>
\<close>

definition calculateQualityScore :: "serverInfo \<Rightarrow> nat" where
  "calculateQualityScore info =
     (let score = 0;
          score = (if players_online info > 0 then score + 20 else score);
          score = (if players_online info > 10 then score + 20 else score);
          score = (if players_online info > 50 then score + 20 else score);
          score = (if motd info \<noteq> [] \<and> length (motd info) > 10 then score + 15 else score);
          knownVersions = [''1.21'', ''1.20'', ''1.19'', ''1.18''];
          score = (if list_ex (\<lambda>v. str_includes (version info) v) knownVersions
                   then score + 15 else score);
          score = (if responseTime info < 100 then score + 10 else score)
      in min score 100)"

section \<open>The scanner's state\<close>

text \<open>
  The fields of \<open>this.config\<close> that the modelled functions read. \<open>maxPlayers\<close> is
  \<open>None\<close> for the default \<open>Infinity\<close>; \<open>versionFilter\<close> is \<open>None\<close> for \<open>null\<close>.
\<close>

record config =
  port :: nat
  timeout :: nat
  maxRetries :: nat
  versionFilter :: "string list option"
  minPlayers :: int
  maxPlayers :: "int option"
  enableGeolocation :: bool

text \<open>
  \<open>this.stats\<close>. The counters are numbers the code only ever increments from 0;
  \<open>activeConnections\<close> is decremented too and is an integer. \<open>startTime\<close> is \<open>null\<close>
  until \<open>initialize\<close>. The rates are quotients of integers, kept exact here, where
  JavaScript rounds them to doubles. The four \<open>Map\<close>s have string keys.
\<close>

record stats =
  totalScanned :: nat
  totalFound :: nat
  duplicatesSkipped :: nat
  errorsEncountered :: nat
  startTime :: "int option"
  uptime :: int
  avgScanRate :: rat
  peakScanRate :: rat
  avgResponseTime :: rat
  successRate :: rat
  serversByVersion :: "string \<rightharpoonup> nat"
  serversByCountry :: "string \<rightharpoonup> nat"
  serversByPlayerCount :: "string \<rightharpoonup> nat"
  popularMOTDs :: "string \<rightharpoonup> nat"
  activeConnections :: int
  timeoutCount :: nat
  connectionErrors :: nat
  lastFoundServer :: "serverInfo option"
  bestServer :: "serverInfo option"
  memoryUsage :: nat
  gcCount :: nat

record scanner =
  config :: config
  stats :: stats
  serverCache :: "string set"
  ipBlacklist :: "string set"
  rateLimiter :: "string \<rightharpoonup> int"

text \<open>The state the constructor builds; \<open>mem\<close> is what \<open>process.memoryUsage()\<close> reports.\<close>

definition initial_stats :: "nat \<Rightarrow> stats" where
  "initial_stats mem =
     \<lparr>totalScanned = 0, totalFound = 0, duplicatesSkipped = 0, errorsEncountered = 0,
      startTime = None, uptime = 0, avgScanRate = 0, peakScanRate = 0, avgResponseTime = 0,
      successRate = 0,
      serversByVersion = Map.empty, serversByCountry = Map.empty,
      serversByPlayerCount = Map.empty, popularMOTDs = Map.empty,
      activeConnections = 0, timeoutCount = 0, connectionErrors = 0,
      lastFoundServer = None, bestServer = None, memoryUsage = mem, gcCount = 0\<rparr>"

definition initial_scanner :: "config \<Rightarrow> nat \<Rightarrow> scanner" where
  "initial_scanner cfg mem =
     \<lparr>config = cfg, stats = initial_stats mem, serverCache = {}, ipBlacklist = {},
      rateLimiter = Map.empty\<rparr>"

subsection \<open>\<open>enhanceServerInfo\<close> and the filters\<close>

text \<open>
  \<^verbatim>\<open>
  async enhanceServerInfo(ip, rawInfo, responseTime) {
      const enhanced = {
          ip, port: this.config.port, timestamp: new Date().toISOString(), responseTime,
          version: this.extractVersion(rawInfo),
          protocol: rawInfo.version?.protocol || 'Unknown',
          players: { online: rawInfo.players?.online || 0, max: rawInfo.players?.max || 0,
                     sample: rawInfo.players?.sample || [] },
          description: this.extractDescription(rawInfo), motd: this.extractMOTD(rawInfo),
          favicon: rawInfo.favicon ? 'Present' : 'None', modded: this.detectModded(rawInfo),
          location: null, country: 'Unknown', qualityScore: 0,
          raw: JSON.stringify(rawInfo) };
      if (this.config.enableGeolocation) {
          try { enhanced.location = await this.getServerLocation(ip);
                enhanced.country = this.extractCountry(enhanced.location); } catch (error) { }
      }
      enhanced.qualityScore = this.calculateQualityScore(enhanced);
      return enhanced;
  }
  \<close>
  \<open>iso_now\<close> is the string \<open>new Date().toISOString()\<close> returns.
\<close>

definition enhanceServerInfo ::
  "config \<Rightarrow> string \<Rightarrow> rawInfo \<Rightarrow> int \<Rightarrow> string \<Rightarrow> string list option \<Rightarrow> serverInfo" where
  "enhanceServerInfo cfg addr rawInfo rt iso_now dns_reverse =
     (let enhanced =
            \<lparr>ip = addr, server_port = port cfg, timestamp = iso_now, responseTime = rt,
             version = extractVersion rawInfo,
             protocol = (case version_protocol rawInfo of
                           Some p \<Rightarrow> if p \<noteq> 0 then Protocol p else UnknownProtocol
                         | None \<Rightarrow> UnknownProtocol),
             players_online = (case raw_online rawInfo of Some n \<Rightarrow> n | None \<Rightarrow> 0),
             players_max = (case raw_max rawInfo of Some n \<Rightarrow> n | None \<Rightarrow> 0),
             players_sample = (case raw_sample rawInfo of Some xs \<Rightarrow> xs | None \<Rightarrow> []),
             description = extractDescription rawInfo,
             motd = extractMOTD rawInfo,
             favicon = (if (case raw_favicon rawInfo of Some f \<Rightarrow> f \<noteq> [] | None \<Rightarrow> False)
                        then ''Present'' else ''None''),
             modded = detectModded rawInfo,
             location = None, country = ''Unknown'', qualityScore = 0,
             raw = json_text rawInfo\<rparr>;
          enhanced =
            (if enableGeolocation cfg
             then (let loc = getServerLocation dns_reverse
                   in enhanced\<lparr>location := Some loc, country := extractCountry loc\<rparr>)
             else enhanced)
      in enhanced\<lparr>qualityScore := calculateQualityScore enhanced\<rparr>)"

text \<open>
  \<^verbatim>\<open>
  passesFilters(serverInfo) {
      if (this.config.versionFilter && !this.config.versionFilter.includes(serverInfo.version))
          return false;
      if (serverInfo.players.online < this.config.minPlayers) return false;
      if (serverInfo.players.online > this.config.maxPlayers) return false;
      return true;
  }
  \<close>
\<close>

definition passesFilters :: "config \<Rightarrow> serverInfo \<Rightarrow> bool" where
  "passesFilters cfg info =
     (if (case versionFilter cfg of Some vf \<Rightarrow> version info \<notin> set vf | None \<Rightarrow> False) then False
      else if players_online info < minPlayers cfg then False
      else if (case maxPlayers cfg of Some m \<Rightarrow> players_online info > m | None \<Rightarrow> False) then False
      else True)"

subsection \<open>The rate limiter\<close>

text \<open>
  \<^verbatim>\<open>
  isRateLimited(ip) {
      const subnet = ip.split('.').slice(0, 3).join('.');
      const now = Date.now();
      const limit = this.rateLimiter.get(subnet);
      return limit && (now - limit) < 1000;
  }
  updateRateLimit(ip) {
      const subnet = ip.split('.').slice(0, 3).join('.');
      this.rateLimiter.set(subnet, Date.now());
  }
  cleanupRateLimiter() {
      const now = Date.now();
      for (const [subnet, timestamp] of this.rateLimiter.entries())
          if (now - timestamp > 300000) this.rateLimiter.delete(subnet);
  }
  \<close>
  \<open>limit && ...\<close> is falsy when the table has no entry and when the entry is the number 0.
\<close>

definition subnet_of :: "string \<Rightarrow> string" where
  "subnet_of addr = join_with ''.'' (take 3 (split_on CHR ''.'' addr))"

definition isRateLimited :: "scanner \<Rightarrow> string \<Rightarrow> int \<Rightarrow> bool" where
  "isRateLimited s addr now =
     (case rateLimiter s (subnet_of addr) of
        None \<Rightarrow> False
      | Some limit \<Rightarrow> limit \<noteq> 0 \<and> now - limit < 1000)"

definition updateRateLimit :: "scanner \<Rightarrow> string \<Rightarrow> int \<Rightarrow> scanner" where
  "updateRateLimit s addr now = s\<lparr>rateLimiter := (rateLimiter s)(subnet_of addr \<mapsto> now)\<rparr>"

definition cleanupRateLimiter :: "scanner \<Rightarrow> int \<Rightarrow> scanner" where
  "cleanupRateLimiter s now =
     s\<lparr>rateLimiter :=
         (\<lambda>subnet. case rateLimiter s subnet of
                      None \<Rightarrow> None
                    | Some ts \<Rightarrow> if now - ts > 300000 then None else Some ts)\<rparr>"

section \<open>Probing an address\<close>

text \<open>
  What the socket of one \<open>performServerPing\<close> call did. The promise resolves in four
  places, each with \<open>null\<close> or the parsed response; its \<open>reject\<close> parameter is never
  called. The promise rejects only when the executor itself throws (\<open>socket.connect\<close>
  throws on a port outside its range, for one).
  \<^verbatim>\<open>
  async performServerPing(ip) {
      return new Promise((resolve, reject) => {
          const socket = new net.Socket(); let responseBuffer = Buffer.alloc(0);
          let hasResponded = false;
          const timeout = setTimeout(() => {
              if (!hasResponded) { hasResponded = true; cleanup(); resolve(null); }
          }, this.config.timeout);
          socket.connect(this.config.port, ip, () => {
              try { socket.write(this.createHandshakePacket(ip));
                    socket.write(Buffer.from([0x01, 0x00])); }
              catch (error) { clearTimeout(timeout); hasResponded = true; cleanup(); resolve(null); }
          });
          socket.on('data', (chunk) => { responseBuffer = Buffer.concat([responseBuffer, chunk]); });
          socket.on('error', () => {
              if (!hasResponded) { hasResponded = true; clearTimeout(timeout); cleanup(); resolve(null); }
          });
          socket.on('close', () => {
              if (!hasResponded) { hasResponded = true; clearTimeout(timeout);
                  try { resolve(this.parseServerResponse(responseBuffer)); }
                  catch (error) { resolve(null); } }
          });
      });
  }
  \<close>
\<close>

datatype ping_event =
    ExecutorThrows           \<comment> \<open>the promise's executor throws: the promise rejects\<close>
  | TimedOut                 \<comment> \<open>the timer fires first\<close>
  | WriteThrows              \<comment> \<open>connected, and \<open>socket.write\<close> throws\<close>
  | SocketError              \<comment> \<open>the \<open>error\<close> event: refused, reset, unreachable\<close>
  | Closed "byte list"       \<comment> \<open>the peer closes; the bytes received until then\<close>

fun performServerPing :: "json_parser \<Rightarrow> ping_event \<Rightarrow> error + rawInfo option" where
  "performServerPing json_parse ExecutorThrows = Inl SocketThrow"
| "performServerPing json_parse TimedOut = Inr None"
| "performServerPing json_parse WriteThrows = Inr None"
| "performServerPing json_parse SocketError = Inr None"
| "performServerPing json_parse (Closed responseBuffer) =
     Inr (parseServerResponse json_parse responseBuffer)"

text \<open>
  What one call of \<open>checkMinecraftServer\<close> reads from outside: the clock where it reads
  \<open>Date.now()\<close>, the socket's behaviour, the reverse lookup, the time stamp.
\<close>

record attempt =
  now_check :: int               \<comment> \<open>\<open>Date.now()\<close> in \<open>isRateLimited\<close>\<close>
  now_start :: int               \<comment> \<open>\<open>const startTime = Date.now()\<close>\<close>
  ping :: ping_event
  now_end :: int                 \<comment> \<open>\<open>Date.now()\<close> after the ping\<close>
  now_iso :: string              \<comment> \<open>\<open>new Date().toISOString()\<close>\<close>
  dns_answer :: "string list option"
  now_finally :: int             \<comment> \<open>\<open>Date.now()\<close> in \<open>updateRateLimit\<close>\<close>

text \<open>What a call does that an observer outside can see, in order.\<close>

datatype effect =
    Delay nat        \<comment> \<open>\<open>await this.delay(ms)\<close>\<close>
  | Ping string      \<comment> \<open>\<open>performServerPing(ip)\<close> opens a socket to the address\<close>

text \<open>
  \<^verbatim>\<open>
  async checkMinecraftServer(ip, retryCount = 0) {
      if (retryCount >= this.config.maxRetries) { this.ipBlacklist.add(ip); return null; }
      if (this.isRateLimited(ip)) { await this.delay(100); return null; }
      const startTime = Date.now();
      const timeoutId = setTimeout(() => { this.stats.timeoutCount++; }, this.config.timeout);
      try {
          this.stats.activeConnections++;
          const serverInfo = await this.performServerPing(ip);
          clearTimeout(timeoutId);
          const responseTime = Date.now() - startTime;
          if (serverInfo) {
              const enhancedInfo = await this.enhanceServerInfo(ip, serverInfo, responseTime);
              if (this.passesFilters(enhancedInfo)) return enhancedInfo;
          }
          return null;
      } catch (error) {
          clearTimeout(timeoutId);
          this.stats.connectionErrors++;
          if (retryCount < this.config.maxRetries) {
              await this.delay(500 * (retryCount + 1));
              return this.checkMinecraftServer(ip, retryCount + 1);
          }
          return null;
      } finally {
          this.stats.activeConnections--;
          this.updateRateLimit(ip);
      }
  }
  \<close>
  The two guards at the top are \<open>admit\<close>. The statistics timer is set with the same delay
  as the ping's own timer and before it, so it has fired when the ping times out, and is
  cleared otherwise.

  The retry is \<open>return this.checkMinecraftServer(...)\<close> without \<open>await\<close> inside
  \<open>try ... finally\<close>: the inner call runs to its first \<open>await\<close> (its two guards, and
  the opening of its socket), then the outer \<open>finally\<close> runs, then the inner call goes on.
  So the inner guards read the rate-limiter table before the outer \<open>finally\<close> writes it.
\<close>

datatype admission = Exhausted | RateLimited | Admitted

definition admit :: "scanner \<Rightarrow> (nat \<Rightarrow> attempt) \<Rightarrow> string \<Rightarrow> nat \<Rightarrow> admission" where
  "admit s env addr retryCount =
     (if retryCount \<ge> maxRetries (config s) then Exhausted
      else if isRateLimited s addr (now_check (env retryCount)) then RateLimited
      else Admitted)"

definition finally_block :: "scanner \<Rightarrow> string \<Rightarrow> int \<Rightarrow> scanner" where
  "finally_block s addr now =
     updateRateLimit (s\<lparr>stats := (stats s)\<lparr>activeConnections := activeConnections (stats s) - 1\<rparr>\<rparr>)
       addr now"

function attempt_from ::
  "json_parser \<Rightarrow> (nat \<Rightarrow> attempt) \<Rightarrow> scanner \<Rightarrow> string \<Rightarrow> nat
     \<Rightarrow> serverInfo option \<times> scanner \<times> effect list" where
  "attempt_from json_parse env s addr retryCount =
     (let a = env retryCount;
          s = s\<lparr>stats := (stats s)\<lparr>activeConnections := activeConnections (stats s) + 1\<rparr>\<rparr>
      in case performServerPing json_parse (ping a) of
           Inr serverInfo \<Rightarrow>
             (let s = (if ping a = TimedOut
                       then s\<lparr>stats := (stats s)\<lparr>timeoutCount := timeoutCount (stats s) + 1\<rparr>\<rparr>
                       else s);
                  rt = now_end a - now_start a;
                  result =
                    (case serverInfo of
                       Some rawInfo \<Rightarrow>
                         (let enhancedInfo =
                                enhanceServerInfo (config s) addr rawInfo rt (now_iso a) (dns_answer a)
                          in if passesFilters (config s) enhancedInfo then Some enhancedInfo else None)
                     | None \<Rightarrow> None)
              in (result, finally_block s addr (now_finally a), [Ping addr]))
         | Inl error \<Rightarrow>
             (let s = s\<lparr>stats := (stats s)\<lparr>connectionErrors := connectionErrors (stats s) + 1\<rparr>\<rparr>
              in if retryCount < maxRetries (config s)
                 then
                   (case admit s env addr (retryCount + 1) of
                      Exhausted \<Rightarrow>
                        (None,
                         finally_block (s\<lparr>ipBlacklist := insert addr (ipBlacklist s)\<rparr>) addr (now_finally a),
                         [Ping addr, Delay (500 * (retryCount + 1))])
                    | RateLimited \<Rightarrow>
                        (None, finally_block s addr (now_finally a),
                         [Ping addr, Delay (500 * (retryCount + 1)), Delay 100])
                    | Admitted \<Rightarrow>
                        (case attempt_from json_parse env (finally_block s addr (now_finally a))
                                addr (retryCount + 1) of
                           (result, s', effects) \<Rightarrow>
                             (result, s', [Ping addr, Delay (500 * (retryCount + 1))] @ effects)))
                 else (None, finally_block s addr (now_finally a), [Ping addr])))"
  by pat_completeness auto
termination
  by (relation "measure (\<lambda>(json_parse, env, s, addr, retryCount). maxRetries (config s) - retryCount)")
     (auto simp: admit_def finally_block_def updateRateLimit_def split: if_splits)

declare attempt_from.simps [simp del]

definition checkMinecraftServer ::
  "json_parser \<Rightarrow> (nat \<Rightarrow> attempt) \<Rightarrow> scanner \<Rightarrow> string \<Rightarrow> nat
     \<Rightarrow> serverInfo option \<times> scanner \<times> effect list" where
  "checkMinecraftServer json_parse env s addr retryCount =
     (case admit s env addr retryCount of
        Exhausted \<Rightarrow> (None, s\<lparr>ipBlacklist := insert addr (ipBlacklist s)\<rparr>, [])
      | RateLimited \<Rightarrow> (None, s, [Delay 100])
      | Admitted \<Rightarrow> attempt_from json_parse env s addr retryCount)"

section \<open>Recording a discovery\<close>

text \<open>
  \<^verbatim>\<open>
  getPlayerCountRange(playerCount) {
      if (playerCount === 0) return '0 players';
      if (playerCount <= 5) return '1-5 players';
      if (playerCount <= 20) return '6-20 players';
      if (playerCount <= 50) return '21-50 players';
      if (playerCount <= 100) return '51-100 players';
      return '100+ players';
  }
  updateServerStats(serverInfo) {
      const versionCount = this.stats.serversByVersion.get(serverInfo.version) || 0;
      this.stats.serversByVersion.set(serverInfo.version, versionCount + 1);
      const countryCount = this.stats.serversByCountry.get(serverInfo.country) || 0;
      this.stats.serversByCountry.set(serverInfo.country, countryCount + 1);
      const playerRange = this.getPlayerCountRange(serverInfo.players.online);
      const playerCount = this.stats.serversByPlayerCount.get(playerRange) || 0;
      this.stats.serversByPlayerCount.set(playerRange, playerCount + 1);
      if (serverInfo.motd && serverInfo.motd.length > 5) {
          const motdCount = this.stats.popularMOTDs.get(serverInfo.motd) || 0;
          if (motdCount < 10) this.stats.popularMOTDs.set(serverInfo.motd, motdCount + 1);
      }
      if (!this.stats.bestServer || serverInfo.qualityScore > this.stats.bestServer.qualityScore)
          this.stats.bestServer = serverInfo;
      this.stats.lastFoundServer = serverInfo;
  }
  \<close>
\<close>

definition getPlayerCountRange :: "int \<Rightarrow> string" where
  "getPlayerCountRange playerCount =
     (if playerCount = 0 then ''0 players''
      else if playerCount \<le> 5 then ''1-5 players''
      else if playerCount \<le> 20 then ''6-20 players''
      else if playerCount \<le> 50 then ''21-50 players''
      else if playerCount \<le> 100 then ''51-100 players''
      else ''100+ players'')"

definition count_of :: "(string \<rightharpoonup> nat) \<Rightarrow> string \<Rightarrow> nat" where
  "count_of m k = (case m k of Some n \<Rightarrow> n | None \<Rightarrow> 0)"

definition updateServerStats :: "stats \<Rightarrow> serverInfo \<Rightarrow> stats" where
  "updateServerStats st info =
     (let versionCount = count_of (serversByVersion st) (version info);
          st = st\<lparr>serversByVersion := (serversByVersion st)(version info \<mapsto> versionCount + 1)\<rparr>;
          countryCount = count_of (serversByCountry st) (country info);
          st = st\<lparr>serversByCountry := (serversByCountry st)(country info \<mapsto> countryCount + 1)\<rparr>;
          playerRange = getPlayerCountRange (players_online info);
          playerCount = count_of (serversByPlayerCount st) playerRange;
          st = st\<lparr>serversByPlayerCount := (serversByPlayerCount st)(playerRange \<mapsto> playerCount + 1)\<rparr>;
          st = (if motd info \<noteq> [] \<and> length (motd info) > 5
                then (let motdCount = count_of (popularMOTDs st) (motd info)
                      in if motdCount < 10
                         then st\<lparr>popularMOTDs := (popularMOTDs st)(motd info \<mapsto> motdCount + 1)\<rparr>
                         else st)
                else st);
          st = (if (case bestServer st of None \<Rightarrow> True | Some b \<Rightarrow> qualityScore info > qualityScore b)
                then st\<lparr>bestServer := Some info\<rparr> else st)
      in st\<lparr>lastFoundServer := Some info\<rparr>)"

text \<open>
  \<open>saveServer\<close> appends to the catalogue files, then caches the address and updates the
  statistics, all inside one \<open>try\<close>; when a file operation throws, the rest is skipped and
  the error is logged. The files are outside the model: \<open>files_ok\<close> says whether the file
  operations succeeded.
  \<^verbatim>\<open>
  async saveServer(serverInfo) {
      try {
          const line = this.formatServerLine(serverInfo);
          await fs.appendFile(this.config.outputFile, line + '\n');
          if (this.config.exportFormats.includes('json')) { ... await fs.writeFile(...); }
          this.serverCache.add(serverInfo.ip);
          this.updateServerStats(serverInfo);
      } catch (error) { this.logger.error(...); }
  }
  async scanSingleServer(ip) {
      try {
          this.stats.totalScanned++;
          const serverInfo = await this.checkMinecraftServer(ip);
          if (serverInfo) {
              await this.saveServer(serverInfo);
              this.stats.totalFound++;
              ...
          }
      } catch (error) { this.stats.errorsEncountered++; ... }
  }
  \<close>
  \<open>checkMinecraftServer\<close> and \<open>saveServer\<close> catch what is thrown inside them, so the
  \<open>catch\<close> of \<open>scanSingleServer\<close> has nothing to catch.
\<close>

definition saveServer :: "bool \<Rightarrow> scanner \<Rightarrow> serverInfo \<Rightarrow> scanner" where
  "saveServer files_ok s info =
     (if files_ok
      then s\<lparr>serverCache := insert (ip info) (serverCache s),
              stats := updateServerStats (stats s) info\<rparr>
      else s)"

definition scanSingleServer ::
  "json_parser \<Rightarrow> (nat \<Rightarrow> attempt) \<Rightarrow> bool \<Rightarrow> scanner \<Rightarrow> string \<Rightarrow> scanner \<times> effect list" where
  "scanSingleServer json_parse env files_ok s addr =
     (let s = s\<lparr>stats := (stats s)\<lparr>totalScanned := totalScanned (stats s) + 1\<rparr>\<rparr>
      in case checkMinecraftServer json_parse env s addr 0 of
           (Some info, s, effects) \<Rightarrow>
             (let s = saveServer files_ok s info
              in (s\<lparr>stats := (stats s)\<lparr>totalFound := totalFound (stats s) + 1\<rparr>\<rparr>, effects))
         | (None, s, effects) \<Rightarrow> (s, effects))"

section \<open>Control surface and statistics\<close>

text \<open>
  \<^verbatim>\<open>
  resetStats() {
      const preserveStats = { totalFound: this.stats.totalFound,
          serversByVersion: this.stats.serversByVersion,
          serversByCountry: this.stats.serversByCountry };
      this.stats = {
          totalScanned: 0, totalFound: preserveStats.totalFound, duplicatesSkipped: 0,
          errorsEncountered: 0, startTime: Date.now(), uptime: 0, avgScanRate: 0,
          peakScanRate: 0, avgResponseTime: 0, successRate: 0,
          serversByVersion: preserveStats.serversByVersion,
          serversByCountry: preserveStats.serversByCountry,
          serversByPlayerCount: new Map(), popularMOTDs: new Map(),
          activeConnections: 0, timeoutCount: 0, connectionErrors: 0,
          lastFoundServer: null, bestServer: null,
          memoryUsage: process.memoryUsage(), gcCount: 0 };
  }
  \<close>
\<close>

definition resetStats :: "scanner \<Rightarrow> int \<Rightarrow> nat \<Rightarrow> scanner" where
  "resetStats s now mem =
     s\<lparr>stats :=
         \<lparr>totalScanned = 0, totalFound = totalFound (stats s), duplicatesSkipped = 0,
          errorsEncountered = 0, startTime = Some now, uptime = 0, avgScanRate = 0,
          peakScanRate = 0, avgResponseTime = 0, successRate = 0,
          serversByVersion = serversByVersion (stats s),
          serversByCountry = serversByCountry (stats s),
          serversByPlayerCount = Map.empty, popularMOTDs = Map.empty,
          activeConnections = 0, timeoutCount = 0, connectionErrors = 0,
          lastFoundServer = None, bestServer = None,
          memoryUsage = mem, gcCount = 0\<rparr>\<rparr>"

text \<open>
  \<^verbatim>\<open>
  updateStatistics() {
      const now = Date.now();
      this.stats.uptime = now - this.stats.startTime;
      this.stats.memoryUsage = process.memoryUsage();
      const uptimeSeconds = Math.max(1, this.stats.uptime / 1000);
      this.stats.avgScanRate = this.stats.totalScanned / uptimeSeconds;
      this.stats.successRate = this.stats.totalScanned > 0
          ? (this.stats.totalFound / this.stats.totalScanned * 100) : 0;
      const currentRate = this.stats.avgScanRate;
      if (currentRate > this.stats.peakScanRate) this.stats.peakScanRate = currentRate;
  }
  \<close>
  \<open>now - null\<close> is \<open>now\<close>.
\<close>

definition updateStatistics :: "scanner \<Rightarrow> int \<Rightarrow> nat \<Rightarrow> scanner" where
  "updateStatistics s now mem =
     (let st = stats s;
          st = st\<lparr>uptime := now - (case startTime st of Some t \<Rightarrow> t | None \<Rightarrow> 0)\<rparr>;
          st = st\<lparr>memoryUsage := mem\<rparr>;
          uptimeSeconds = max 1 (of_int (uptime st) / 1000);
          st = st\<lparr>avgScanRate := of_nat (totalScanned st) / uptimeSeconds\<rparr>;
          st = st\<lparr>successRate := (if totalScanned st > 0
                                   then of_nat (totalFound st) / of_nat (totalScanned st) * 100
                                   else 0)\<rparr>;
          currentRate = avgScanRate st;
          st = (if currentRate > peakScanRate st then st\<lparr>peakScanRate := currentRate\<rparr> else st)
      in s\<lparr>stats := st\<rparr>)"

text \<open>
  Start-up. The catalogue file and the saved statistics are parameters: the text of
  \<open>config.outputFile\<close> (\<open>None\<close> when reading it throws), and the three fields read from
  the parsed \<open>session-stats.json\<close> (\<open>None\<close> when reading or parsing it throws; a field is
  \<open>None\<close> when it is absent).
  \<^verbatim>\<open>
  async loadExistingData() {
      try {
          const serversData = await fs.readFile(this.config.outputFile, 'utf8');
          const servers = serversData.split('\n').filter(line => line.trim());
          servers.forEach(line => {
              const [ip] = line.split('|');
              if (ip && this.isValidIP(ip)) this.serverCache.add(ip);
          });
          const statsFile = path.join(os.homedir(), '.minecraft-scanner', 'session-stats.json');
          try {
              const statsData = await fs.readFile(statsFile, 'utf8');
              const savedStats = JSON.parse(statsData);
              // Merge important stats but reset session-specific ones
              this.stats.totalFound = savedStats.totalFound || 0;
              this.stats.serversByVersion = new Map(savedStats.serversByVersion || []);
              this.stats.serversByCountry = new Map(savedStats.serversByCountry || []);
          } catch (error) { }
          ...
      } catch (error) { this.logger.warn(...); }
  }
  async initialize() {
      ... await this.loadExistingData(); await this.setupIntervals();
      this.stats.startTime = Date.now(); this.isRunning = true; ...
  }
  \<close>
\<close>

record savedStats =
  saved_totalFound :: "nat option"
  saved_serversByVersion :: "(string \<times> nat) list option"
  saved_serversByCountry :: "(string \<times> nat) list option"

definition new_Map :: "(string \<times> nat) list option \<Rightarrow> (string \<rightharpoonup> nat)" where
  "new_Map entries = (case entries of Some kvs \<Rightarrow> map_of (rev kvs) | None \<Rightarrow> Map.empty)"

definition load_line :: "string \<Rightarrow> string set \<Rightarrow> string set" where
  "load_line line cache =
     (case split_on CHR ''|'' line of
        [] \<Rightarrow> cache
      | addr # others \<Rightarrow> if addr \<noteq> [] \<and> isValidIP addr then insert addr cache else cache)"

definition loadExistingData :: "scanner \<Rightarrow> string option \<Rightarrow> savedStats option \<Rightarrow> scanner" where
  "loadExistingData s outputFile statsFile =
     (case outputFile of
        None \<Rightarrow> s
      | Some serversData \<Rightarrow>
          (let servers = filter (\<lambda>line. trim line \<noteq> []) (split_on (char_of (10::nat)) serversData);
               s = s\<lparr>serverCache := fold load_line servers (serverCache s)\<rparr>
           in case statsFile of
                None \<Rightarrow> s
              | Some saved \<Rightarrow>
                  s\<lparr>stats := (stats s)
                       \<lparr>totalFound := (case saved_totalFound saved of Some n \<Rightarrow> n | None \<Rightarrow> 0),
                        serversByVersion := new_Map (saved_serversByVersion saved),
                        serversByCountry := new_Map (saved_serversByCountry saved)\<rparr>\<rparr>))"

definition initialize :: "scanner \<Rightarrow> string option \<Rightarrow> savedStats option \<Rightarrow> int \<Rightarrow> scanner" where
  "initialize s outputFile statsFile now =
     (let s = loadExistingData s outputFile statsFile
      in s\<lparr>stats := (stats s)\<lparr>startTime := Some now\<rparr>\<rparr>)"

text \<open>
  The scanner's life as a sequence of the calls above. JavaScript runs one handler at a
  time, so each call is a step on the state; a scan is taken as one step, from
  \<open>totalScanned++\<close> to the end of \<open>scanSingleServer\<close>.
\<close>

datatype event =
    Initialize "string option" "savedStats option" int
  | Scan json_parser "nat \<Rightarrow> attempt" bool string
  | ResetStats int nat
  | UpdateStatistics int nat
  | CleanupRateLimiter int

fun step :: "scanner \<Rightarrow> event \<Rightarrow> scanner" where
  "step s (Initialize outputFile statsFile now) = initialize s outputFile statsFile now"
| "step s (Scan json_parse env files_ok addr) = fst (scanSingleServer json_parse env files_ok s addr)"
| "step s (ResetStats now mem) = resetStats s now mem"
| "step s (UpdateStatistics now mem) = updateStatistics s now mem"
| "step s (CleanupRateLimiter now) = cleanupRateLimiter s now"

definition run :: "scanner \<Rightarrow> event list \<Rightarrow> scanner" where
  "run s events = foldl step s events"

fun is_scan_step :: "event \<Rightarrow> bool" where
  "is_scan_step (Initialize outputFile statsFile now) = False"
| "is_scan_step (ResetStats now mem) = False"
| "is_scan_step e = True"

section \<open>The address generator\<close>

text \<open>
  \<open>Math.random()\<close> is a parameter: the generator is given the list of the numbers the
  coming calls return, uses them in order, and returns the rest. \<open>None\<close> means that the
  list ran out before the generator returned. \<open>Math.floor(Math.random() * n)\<close> is
  \<open>random_below n r\<close>; for \<open>r\<close> in \<open>[0, 1)\<close> it is below \<open>n\<close>.
\<close>

definition random_below :: "nat \<Rightarrow> rat \<Rightarrow> nat" where
  "random_below n r = nat \<lfloor>r * of_nat n\<rfloor>"


text \<open>
  \<^verbatim>\<open>
  generateRandomPublicIP() {
      let ip;
      do {
          const parts = Array.from({ length: 4 }, () => Math.floor(Math.random() * 256));
          ip = parts.join('.');
      } while (!this.isPublicIP(ip) || this.ipBlacklist.has(ip) || this.serverCache.has(ip));
      return ip;
  }
  \<close>
  The loop has no counter: it ends when a sample passes the three tests. Each round uses
  four random numbers, so the recursion is on the list of them.
\<close>

definition sample_ip :: "rat \<Rightarrow> rat \<Rightarrow> rat \<Rightarrow> rat \<Rightarrow> string" where
  "sample_ip r1 r2 r3 r4 =
     join_with ''.'' (map (\<lambda>r. show_nat (random_below 256 r)) [r1, r2, r3, r4])"

definition rejected :: "scanner \<Rightarrow> string \<Rightarrow> bool" where
  "rejected s addr = (\<not> isPublicIP addr \<or> addr \<in> ipBlacklist s \<or> addr \<in> serverCache s)"

fun generateRandomPublicIP :: "scanner \<Rightarrow> rat list \<Rightarrow> (string \<times> rat list) option" where
  "generateRandomPublicIP s (r1 # r2 # r3 # r4 # rs) =
     (let addr = sample_ip r1 r2 r3 r4
      in if rejected s addr then generateRandomPublicIP s rs else Some (addr, rs))"
| "generateRandomPublicIP s rs = None"






section \<open>Specification-level notions and test data\<close>

text \<open>
  The number a VarInt of \<open>n\<close> bytes spells: seven payload bits a byte, the first byte
  lowest, within 32 bits.
\<close>

primrec varint_bits :: "byte list \<Rightarrow> nat \<Rightarrow> nat \<Rightarrow> 32 word" where
  "varint_bits buffer offset 0 = 0"
| "varint_bits buffer offset (Suc n) =
     varint_bits buffer offset n OR push_bit (7 * n) (ucast (buffer ! (offset + n) AND 0x7F))"

text \<open>
  Two statistics records that differ at most in the three fields a probe touches, the
  connection gauge and the two error counters.
\<close>

definition stats_touched :: "stats \<Rightarrow> stats \<Rightarrow> bool" where
  "stats_touched st st' =
     (st'\<lparr>activeConnections := 0, timeoutCount := 0, connectionErrors := 0\<rparr> =
      st\<lparr>activeConnections := 0, timeoutCount := 0, connectionErrors := 0\<rparr>)"

text \<open>The bound on the MOTD tally: keys longer than five characters, counts at most ten.\<close>

definition motd_inv :: "(string \<rightharpoonup> nat) \<Rightarrow> bool" where
  "motd_inv m = (\<forall>k n. m k = Some n \<longrightarrow> length k > 5 \<and> n \<le> 10)"

text \<open>The configuration the constructor builds when it is given no options.\<close>

definition default_config :: config where
  "default_config =
     \<lparr>port = 25565, timeout = 3000, maxRetries = 2, versionFilter = None, minPlayers = 0,
      maxPlayers = None, enableGeolocation = True\<rparr>"

text \<open>
  A status response as a server frames it, for a payload of at most 125 bytes, where
  each of the three VarInts is one byte: the packet length, the packet id 0, the length of
  the JSON text, the text.
\<close>

definition bytes_of :: "string \<Rightarrow> byte list" where
  "bytes_of s = map of_char s"

definition slp_frame :: "byte list \<Rightarrow> byte list" where
  "slp_frame payload = [of_nat (length payload + 2), 0x00, of_nat (length payload)] @ payload"

text \<open>The status of the successful-probe scenario, its JSON text, and its parsed form.\<close>

definition scenario_json :: string where
  \<open>scenario_json =
     ''{"version":{"name":"1.20.4","protocol":765},"players":{"online":25,"max":100},"description":{"text":"Welcome"}}''\<close>

definition scenario_status :: rawInfo where
  "scenario_status =
     \<lparr>version_name = Some ''1.20.4'', version_protocol = Some 765,
      raw_online = Some 25, raw_max = Some 100, raw_sample = None,
      raw_description = DescriptionObject (Some ''Welcome'') None,
      raw_favicon = None, json_text = scenario_json\<rparr>"

definition scenario_parse :: json_parser where
  "scenario_parse text_bytes =
     (if text_bytes = bytes_of scenario_json then Inr (Some scenario_status) else Inl SyntaxError)"

text \<open>
  A probe of the scenario's server that is admitted at clock reading 5000 and answered
  120 ms later, and a probe at the same time that ends in a socket error.
\<close>

definition answered :: attempt where
  "answered =
     \<lparr>now_check = 5000, now_start = 5000, ping = Closed (slp_frame (bytes_of scenario_json)),
      now_end = 5120, now_iso = ''2025-01-01T00:00:05.120Z'', dns_answer = None,
      now_finally = 5120\<rparr>"

definition refused :: attempt where
  "refused =
     \<lparr>now_check = 5000, now_start = 5000, ping = SocketError,
      now_end = 5003, now_iso = ''2025-01-01T00:00:05.003Z'', dns_answer = None,
      now_finally = 5003\<rparr>"

text \<open>What enrichment makes of the scenario's status under the default configuration, when the
  reverse lookup fails.\<close>

definition scenario_info :: "string \<Rightarrow> int \<Rightarrow> string \<Rightarrow> serverInfo" where
  "scenario_info addr rt iso_now =
     \<lparr>ip = addr, server_port = 25565, timestamp = iso_now, responseTime = rt,
      version = ''1.20.4'', protocol = Protocol 765, players_online = 25, players_max = 100,
      players_sample = [], description = ''Welcome'', motd = ''Welcome'', favicon = ''None'',
      modded = False, location = Some ''Unknown'', country = ''Unknown'',
      qualityScore = (if rt < 100 then 65 else 55), raw = scenario_json\<rparr>"


text \<open>The state after the constructed scanner has scanned the scenario's server once.\<close>

definition after_discovery :: "nat \<Rightarrow> scanner" where
  "after_discovery mem =
     fst (scanSingleServer scenario_parse (\<lambda>k. answered) True (initial_scanner default_config mem)
            ''203.0.113.17'')"

text \<open>
  A probe that fails in one of the ways the retry policy names: a time-out, a socket error
  (refused, reset, unreachable), a write that throws, or a response that does not parse.
\<close>

fun probe_fails :: "json_parser \<Rightarrow> ping_event \<Rightarrow> bool" where
  "probe_fails json_parse ExecutorThrows = False"
| "probe_fails json_parse TimedOut = True"
| "probe_fails json_parse WriteThrows = True"
| "probe_fails json_parse SocketError = True"
| "probe_fails json_parse (Closed responseBuffer) =
     (parseServerResponse json_parse responseBuffer = None)"

text \<open>An attempt whose ping cannot even be set up: the promise rejects.\<close>

definition setup_throws :: attempt where
  "setup_throws = refused\<lparr>ping := ExecutorThrows\<rparr>"



text \<open>
  The sample of round \<open>k\<close> of the rejection loop, counted from 0, on the random numbers
  \<open>rs\<close>.
\<close>

definition attempt_at :: "rat list \<Rightarrow> nat \<Rightarrow> string" where
  "attempt_at rs k = sample_ip (rs ! (4 * k)) (rs ! (4 * k + 1)) (rs ! (4 * k + 2)) (rs ! (4 * k + 3))"




section \<open>Properties\<close>

subsection \<open>What one probe leaves unchanged\<close>

lemma finally_block_frame:
  "config (finally_block s addr now) = config s"
  "serverCache (finally_block s addr now) = serverCache s"
  "ipBlacklist (finally_block s addr now) = ipBlacklist s"
  "stats (finally_block s addr now) = (stats s)\<lparr>activeConnections := activeConnections (stats s) - 1\<rparr>"
  "rateLimiter (finally_block s addr now) = (rateLimiter s)(subnet_of addr \<mapsto> now)"
  by (simp_all add: finally_block_def updateRateLimit_def)

text \<open>A call whose ping resolves makes one attempt and ends: no delay, no retry.\<close>

lemma attempt_from_resolved:
  assumes "performServerPing json_parse (ping (env k)) = Inr serverInfo"
  shows "attempt_from json_parse env s addr k =
     (let a = env k;
          s1 = s\<lparr>stats := (stats s)\<lparr>activeConnections := activeConnections (stats s) + 1\<rparr>\<rparr>;
          s2 = (if ping a = TimedOut
                then s1\<lparr>stats := (stats s1)\<lparr>timeoutCount := timeoutCount (stats s1) + 1\<rparr>\<rparr>
                else s1)
      in ((case serverInfo of
             Some rawInfo \<Rightarrow>
               (let enhancedInfo = enhanceServerInfo (config s) addr rawInfo
                                     (now_end a - now_start a) (now_iso a) (dns_answer a)
                in if passesFilters (config s) enhancedInfo then Some enhancedInfo else None)
           | None \<Rightarrow> None),
          finally_block s2 addr (now_finally a), [Ping addr]))"
  using assms by (subst attempt_from.simps) (simp add: Let_def split: option.splits)

lemma attempt_from_frame:
  "attempt_from json_parse env s addr k = (r, s', effects) \<Longrightarrow>
     config s' = config s \<and> serverCache s' = serverCache s \<and> stats_touched (stats s) (stats s')"
proof (induction json_parse env s addr k arbitrary: r s' effects rule: attempt_from.induct)
  case (1 json_parse env s addr retryCount)
  let ?s1 = "s\<lparr>stats := (stats s)\<lparr>activeConnections := activeConnections (stats s) + 1\<rparr>\<rparr>"
  show ?case
  proof (cases "performServerPing json_parse (ping (env retryCount))")
    case (Inr serverInfo)
    with "1.prems" show ?thesis
      by (subst (asm) attempt_from.simps)
         (auto simp: Let_def finally_block_frame stats_touched_def split: if_splits option.splits)
  next
    case (Inl e)
    let ?s2 = "?s1\<lparr>stats := (stats ?s1)\<lparr>connectionErrors := connectionErrors (stats ?s1) + 1\<rparr>\<rparr>"
    let ?s3 = "finally_block ?s2 addr (now_finally (env retryCount))"
    show ?thesis
    proof (cases "retryCount < maxRetries (config s)")
      case False
      with Inl "1.prems" show ?thesis
        by (subst (asm) attempt_from.simps)
           (auto simp: Let_def finally_block_frame stats_touched_def)
    next
      case True
      show ?thesis
      proof (cases "admit ?s2 env addr (retryCount + 1)")
        case Exhausted
        with True Inl "1.prems" show ?thesis
          by (subst (asm) attempt_from.simps)
             (auto simp: Let_def finally_block_frame stats_touched_def)
      next
        case RateLimited
        with True Inl "1.prems" show ?thesis
          by (subst (asm) attempt_from.simps)
             (auto simp: Let_def finally_block_frame stats_touched_def)
      next
        case Admitted
        obtain r2 s2 e2 where rec:
          "attempt_from json_parse env ?s3 addr (retryCount + 1) = (r2, s2, e2)"
          by (cases "attempt_from json_parse env ?s3 addr (retryCount + 1)") auto
        have ih: "config s2 = config ?s3 \<and> serverCache s2 = serverCache ?s3 \<and>
                  stats_touched (stats ?s3) (stats s2)"
          using "1.IH"[OF refl refl Inl refl _ Admitted rec] True by simp
        have "s' = s2"
          using True Inl Admitted rec "1.prems"
          by (subst (asm) attempt_from.simps) (simp add: Let_def)
        with ih show ?thesis
          by (simp add: finally_block_frame stats_touched_def)
      qed
    qed
  qed
qed

lemma checkMinecraftServer_frame:
  "checkMinecraftServer json_parse env s addr k = (r, s', effects) \<Longrightarrow>
     config s' = config s \<and> serverCache s' = serverCache s \<and> stats_touched (stats s) (stats s')"
  unfolding checkMinecraftServer_def
  by (cases "admit s env addr k") (auto dest: attempt_from_frame simp: stats_touched_def)

lemma stats_touched_fields:
  assumes "stats_touched st st'"
  shows "totalScanned st' = totalScanned st" "totalFound st' = totalFound st"
    "popularMOTDs st' = popularMOTDs st" "avgResponseTime st' = avgResponseTime st"
proof -
  let ?n = "\<lambda>x. x\<lparr>activeConnections := 0, timeoutCount := 0, connectionErrors := 0\<rparr>"
  have eq: "?n st' = ?n st" using assms by (simp add: stats_touched_def)
  show "totalScanned st' = totalScanned st" using arg_cong[OF eq, of totalScanned] by simp
  show "totalFound st' = totalFound st" using arg_cong[OF eq, of totalFound] by simp
  show "popularMOTDs st' = popularMOTDs st" using arg_cong[OF eq, of popularMOTDs] by simp
  show "avgResponseTime st' = avgResponseTime st" using arg_cong[OF eq, of avgResponseTime] by simp
qed

lemma updateServerStats_counters:
  "totalScanned (updateServerStats st info) = totalScanned st"
  "totalFound (updateServerStats st info) = totalFound st"
  "avgResponseTime (updateServerStats st info) = avgResponseTime st"
  by (simp_all add: updateServerStats_def Let_def)

lemma updateServerStats_popularMOTDs:
  "popularMOTDs (updateServerStats st info) =
     (if length (motd info) > 5 \<and> count_of (popularMOTDs st) (motd info) < 10
      then (popularMOTDs st)(motd info \<mapsto> count_of (popularMOTDs st) (motd info) + 1)
      else popularMOTDs st)"
  by (auto simp add: updateServerStats_def Let_def)

lemma motd_inv_updateServerStats:
  "motd_inv (popularMOTDs st) \<Longrightarrow> motd_inv (popularMOTDs (updateServerStats st info))"
  by (auto simp: updateServerStats_popularMOTDs motd_inv_def)

lemma scanSingleServer_stats:
  assumes "scanSingleServer json_parse env files_ok s addr = (s', effects)"
  shows "totalScanned (stats s') = totalScanned (stats s) + 1"
    and "totalFound (stats s') \<le> totalFound (stats s) + 1"
    and "avgResponseTime (stats s') = avgResponseTime (stats s)"
    and "motd_inv (popularMOTDs (stats s)) \<Longrightarrow> motd_inv (popularMOTDs (stats s'))"
proof -
  let ?s1 = "s\<lparr>stats := (stats s)\<lparr>totalScanned := totalScanned (stats s) + 1\<rparr>\<rparr>"
  obtain r s2 e2 where chk: "checkMinecraftServer json_parse env ?s1 addr 0 = (r, s2, e2)"
    by (cases "checkMinecraftServer json_parse env ?s1 addr 0") auto
  note fr = checkMinecraftServer_frame[OF chk]
  note f = stats_touched_fields[OF fr[THEN conjunct2, THEN conjunct2]]
  have s': "s' = (case r of Some info \<Rightarrow>
                    (saveServer files_ok s2 info)\<lparr>stats := (stats (saveServer files_ok s2 info))
                       \<lparr>totalFound := totalFound (stats (saveServer files_ok s2 info)) + 1\<rparr>\<rparr>
                  | None \<Rightarrow> s2)"
    using assms chk by (auto simp: scanSingleServer_def Let_def split: option.splits)
  show "totalScanned (stats s') = totalScanned (stats s) + 1"
    using f by (auto simp: s' saveServer_def updateServerStats_counters split: option.splits)
  show "totalFound (stats s') \<le> totalFound (stats s) + 1"
    using f by (auto simp: s' saveServer_def updateServerStats_counters split: option.splits)
  show "avgResponseTime (stats s') = avgResponseTime (stats s)"
    using f by (auto simp: s' saveServer_def updateServerStats_counters split: option.splits)
  show "motd_inv (popularMOTDs (stats s'))" if "motd_inv (popularMOTDs (stats s))"
    using f that by (auto simp: s' saveServer_def motd_inv_updateServerStats split: option.splits)
qed

subsection \<open>The scenario's probe, evaluated\<close>

lemma lower_char_unfold:
  "lower_char c =
     (let n = (of_char c :: nat)
      in if (65 \<le> n \<and> n \<le> 90) \<or> (192 \<le> n \<and> n \<le> 222 \<and> n \<noteq> 215) then char_of (n + 32) else c)"
  by (simp add: lower_char_def)

lemma scenario_not_modded: "detectModded scenario_status = False"
  by (simp add: detectModded_def scenario_status_def scenario_json_def toLowerCase_def Let_def
      lower_char_unfold)

lemma scenario_motd: "extractMOTD scenario_status = ''Welcome''"
  by (simp add: extractMOTD_def extractDescription_def scenario_status_def trim_def is_space_def
      is_format_code_def)

lemma scenario_parsed:
  "parseServerResponse scenario_parse (slp_frame (bytes_of scenario_json)) = Some scenario_status"
  by code_simp

lemma scenario_enhanced:
  "enhanceServerInfo default_config addr scenario_status rt iso_now None = scenario_info addr rt iso_now"
  by (simp add: enhanceServerInfo_def scenario_not_modded scenario_motd calculateQualityScore_def
        Let_def extractVersion_def default_config_def getServerLocation_def extractCountry_def
        extractDescription_def scenario_info_def)
     (simp add: scenario_status_def)

lemma subnet_of_203: "subnet_of ''203.0.113.17'' = ''203.0.113''"
  by (simp add: subnet_of_def)

lemma initial_scanner_fields:
  "config (initial_scanner cfg mem) = cfg"
  "stats (initial_scanner cfg mem) = initial_stats mem"
  "serverCache (initial_scanner cfg mem) = {}"
  "ipBlacklist (initial_scanner cfg mem) = {}"
  "rateLimiter (initial_scanner cfg mem) = Map.empty"
  by (simp_all add: initial_scanner_def)


subsection \<open>VarInt decoding\<close>

lemma readVarInt_loop_Inr:
  "readVarInt_loop buffer offset acc k = Inr (v, n) \<Longrightarrow> acc = varint_bits buffer offset k \<Longrightarrow>
     k < n \<and> (k < 5 \<longrightarrow> n \<le> 5) \<and> offset + n \<le> length buffer \<and> v = varint_bits buffer offset n"
proof (induction buffer offset acc k rule: readVarInt_loop.induct)
  case (1 buffer offset acc bytesRead)
  show ?case
  proof (cases "buffer ! (offset + bytesRead) AND 0x80 \<noteq> 0 \<and> bytesRead + 1 < 5")
    case True
    from "1.prems" have ov: "\<not> length buffer \<le> offset + bytesRead"
      by (subst (asm) readVarInt_loop.simps) (auto split: if_splits)
    from True ov "1.prems" have rec: "readVarInt_loop buffer offset
        (acc OR push_bit (7 * bytesRead) (ucast (buffer ! (offset + bytesRead) AND 0x7F))) (bytesRead + 1) = Inr (v, n)"
      by (subst (asm) readVarInt_loop.simps) (simp add: Let_def)
    have "bytesRead + 1 < n \<and> (bytesRead + 1 < 5 \<longrightarrow> n \<le> 5) \<and> offset + n \<le> length buffer
          \<and> v = varint_bits buffer offset n"
      using "1.IH"[OF ov refl refl refl True rec] "1.prems"(2) by simp
    with True show ?thesis by simp
  next
    case False
    with "1.prems" show ?thesis
      by (subst (asm) readVarInt_loop.simps) (auto simp: Let_def split: if_splits)
  qed
qed

lemma readVarInt_loop_Inl:
  "readVarInt_loop buffer offset acc k = Inl e \<Longrightarrow> k < 5 \<Longrightarrow>
     e = BufferOverflow \<and> length buffer < offset + 5"
proof (induction buffer offset acc k rule: readVarInt_loop.induct)
  case (1 buffer offset acc bytesRead)
  show ?case
  proof (cases "length buffer \<le> offset + bytesRead")
    case True
    with "1.prems" show ?thesis
      by (subst (asm) readVarInt_loop.simps) auto
  next
    case ov: False
    show ?thesis
    proof (cases "buffer ! (offset + bytesRead) AND 0x80 \<noteq> 0 \<and> bytesRead + 1 < 5")
      case True
      from True ov "1.prems" have rec: "readVarInt_loop buffer offset
          (acc OR push_bit (7 * bytesRead) (ucast (buffer ! (offset + bytesRead) AND 0x7F))) (bytesRead + 1) = Inl e"
        by (subst (asm) readVarInt_loop.simps) (simp add: Let_def)
      from "1.IH"[OF ov refl refl refl True rec] True show ?thesis by simp
    next
      case False
      with ov "1.prems" show ?thesis
        by (subst (asm) readVarInt_loop.simps) (auto simp: Let_def split: if_splits)
    qed
  qed
qed

lemma readVarInt_loop_continue:
  "offset + k < length buffer \<Longrightarrow> buffer ! (offset + k) AND 0x80 \<noteq> 0 \<Longrightarrow> k + 1 < 5 \<Longrightarrow>
   readVarInt_loop buffer offset acc k =
   readVarInt_loop buffer offset (acc OR push_bit (7 * k) (ucast (buffer ! (offset + k) AND 0x7F))) (k + 1)"
  by (subst readVarInt_loop.simps) (simp add: Let_def)

lemma readVarInt_loop_stop:
  "offset + k < length buffer \<Longrightarrow> \<not> (buffer ! (offset + k) AND 0x80 \<noteq> 0 \<and> k + 1 < 5) \<Longrightarrow>
   readVarInt_loop buffer offset acc k =
   Inr (acc OR push_bit (7 * k) (ucast (buffer ! (offset + k) AND 0x7F)), k + 1)"
  by (subst readVarInt_loop.simps) (auto simp add: Let_def)

lemma readVarInt_loop_overflow:
  "length buffer \<le> offset + k \<Longrightarrow> readVarInt_loop buffer offset acc k = Inl BufferOverflow"
  by (subst readVarInt_loop.simps) simp

lemmas readVarInt_eval =
  readVarInt_def readVarInt_loop_continue readVarInt_loop_stop readVarInt_loop_overflow

lemma readVarInt_five:
  assumes len: "offset + 5 \<le> length buffer"
    and cont: "\<forall>i<5. buffer ! (offset + i) AND 0x80 \<noteq> 0"
  shows "readVarInt buffer offset = Inr (sint (varint_bits buffer offset 5), 5)"
proof -
  have c: "buffer ! (offset + 0) AND 0x80 \<noteq> 0" "buffer ! (offset + 1) AND 0x80 \<noteq> 0"
    "buffer ! (offset + 2) AND 0x80 \<noteq> 0" "buffer ! (offset + 3) AND 0x80 \<noteq> 0"
    using cont[rule_format, of 0] cont[rule_format, of 1] cont[rule_format, of 2]
      cont[rule_format, of 3] by simp_all
  have "readVarInt_loop buffer offset 0 0 = Inr (varint_bits buffer offset 5, 5)"
    using len c
    by (simp add: readVarInt_loop_continue readVarInt_loop_stop eval_nat_numeral)
  then show ?thesis by (simp add: readVarInt_def)
qed

text \<open>
  Claim C4, as the code has it. A VarInt decode reads at least one and at most five bytes,
  all inside the buffer, and returns the number their seven-bit payloads spell in 32 bits.
  When the five bytes at the offset all have the continuation bit set, the decode stops
  after the fifth and returns that number with \<open>bytesRead = 5\<close>: a long VarInt is cut
  off, not refused. The one error of the decoder is the end of the buffer, met within the
  first five bytes.
\<close>

theorem readVarInt_reads_at_most_five_bytes:
  "(readVarInt buffer offset = Inr (v, n) \<longrightarrow>
      1 \<le> n \<and> n \<le> 5 \<and> offset + n \<le> length buffer \<and> v = sint (varint_bits buffer offset n))
   \<and> (offset + 5 \<le> length buffer \<and> (\<forall>i<5. buffer ! (offset + i) AND 0x80 \<noteq> 0) \<longrightarrow>
        readVarInt buffer offset = Inr (sint (varint_bits buffer offset 5), 5))
   \<and> (readVarInt buffer offset = Inl e \<longrightarrow> e = BufferOverflow \<and> length buffer < offset + 5)"
proof (intro conjI impI)
  assume r: "readVarInt buffer offset = Inr (v, n)"
  then obtain w where loop: "readVarInt_loop buffer offset 0 0 = Inr (w, n)" and v: "v = sint w"
    by (auto simp: readVarInt_def split: sum.splits)
  from readVarInt_loop_Inr[OF loop] v
  show "1 \<le> n" "n \<le> 5" "offset + n \<le> length buffer" "v = sint (varint_bits buffer offset n)"
    by simp_all
next
  assume "offset + 5 \<le> length buffer \<and> (\<forall>i<5. buffer ! (offset + i) AND 0x80 \<noteq> 0)"
  then show "readVarInt buffer offset = Inr (sint (varint_bits buffer offset 5), 5)"
    using readVarInt_five by blast
next
  assume "readVarInt buffer offset = Inl e"
  then have loop: "readVarInt_loop buffer offset 0 0 = Inl e"
    by (auto simp: readVarInt_def split: sum.splits)
  from readVarInt_loop_Inl[OF loop]
  show "e = BufferOverflow" "length buffer < offset + 5" by simp_all
qed

theorem readVarInt_reads_at_most_five_bytes_witness:
  "readVarInt [0xFF, 0xFF, 0xFF, 0xFF, 0xFF, 0x01] 0 = Inr (- 1, 5)
   \<and> sint (varint_bits [0xFF, 0xFF, 0xFF, 0xFF, 0xFF, 0x01] 0 5) = - 1
   \<and> (0::nat) + 5 \<le> length [0xFF, 0xFF, 0xFF, 0xFF, 0xFF, 0x01 :: byte]
   \<and> readVarInt [0x80, 0x80] 0 = Inl BufferOverflow
   \<and> length [0x80, 0x80 :: byte] < 0 + 5"
proof -
  let ?b = "[0xFF, 0xFF, 0xFF, 0xFF, 0xFF, 0x01] :: byte list"
  note main = readVarInt_reads_at_most_five_bytes
  have ev: "readVarInt ?b 0 = Inr (- 1, 5)"
    by (simp add: readVarInt_eval)
  have bits: "sint (varint_bits ?b 0 5) = - 1"
    using main[of ?b 0 "- 1" 5 BufferOverflow, THEN conjunct1, THEN mp, OF ev] by simp
  have five: "\<forall>i<5. ?b ! (0 + i) AND 0x80 \<noteq> 0"
  proof (intro allI impI)
    fix i :: nat assume "i < 5"
    then consider "i = 0" | "i = 1" | "i = 2" | "i = 3" | "i = 4" by arith
    then show "?b ! (0 + i) AND 0x80 \<noteq> 0" by cases simp_all
  qed
  have len: "(0::nat) + 5 \<le> length ?b" by simp
  have "readVarInt ?b 0 = Inr (sint (varint_bits ?b 0 5), 5)"
    using main[of ?b 0 "- 1" 5 BufferOverflow, THEN conjunct2, THEN conjunct1, THEN mp,
        OF conjI[OF len five]] .
  have e: "readVarInt [0x80, 0x80] 0 = Inl BufferOverflow"
    by (simp add: readVarInt_eval)
  have short: "length [0x80, 0x80 :: byte] < 0 + 5"
    using main[of "[0x80, 0x80]" 0 0 0 BufferOverflow, THEN conjunct2, THEN conjunct2, THEN mp,
        OF e] by simp
  from ev bits len e short show ?thesis by (intro conjI)
qed

text \<open>
  Claim C4 as stated fails: five bytes with the continuation bit set decode to a number
  (here \<open>-1\<close>, all 32 bits set), not to a parse error.
\<close>

theorem readVarInt_five_continuation_bytes_counterexample:
  "readVarInt [0xFF, 0xFF, 0xFF, 0xFF, 0xFF] 0 = Inr (- 1, 5)"
  by (simp add: readVarInt_eval)

subsection \<open>One scan of the scenario's server\<close>

lemma check_answered_from:
  assumes cfg: "config s = default_config" and tbl: "rateLimiter s ''203.0.113'' = None"
  shows "checkMinecraftServer scenario_parse (\<lambda>k. answered) s ''203.0.113.17'' 0 =
     (Some (scenario_info ''203.0.113.17'' 120 ''2025-01-01T00:00:05.120Z''),
      s\<lparr>rateLimiter := (rateLimiter s)(''203.0.113'' \<mapsto> 5120)\<rparr>,
      [Ping ''203.0.113.17''])"
proof -
  have adm: "admit s (\<lambda>k. answered) ''203.0.113.17'' 0 = Admitted"
    by (simp add: admit_def cfg default_config_def isRateLimited_def subnet_of_203 tbl)
  have png: "performServerPing scenario_parse (ping ((\<lambda>k. answered) 0)) = Inr (Some scenario_status)"
    by (simp add: answered_def scenario_parsed)
  show ?thesis
    unfolding checkMinecraftServer_def adm
    by (simp add: attempt_from_resolved[OF png] Let_def cfg)
       (simp add: answered_def scenario_enhanced,
        simp add: passesFilters_def scenario_info_def default_config_def finally_block_def
         updateRateLimit_def subnet_of_203)
qed

lemma after_discovery_stats:
  "totalScanned (stats (after_discovery mem)) = 1"
  "totalFound (stats (after_discovery mem)) = 1"
  "avgResponseTime (stats (after_discovery mem)) = 0"
  "popularMOTDs (stats (after_discovery mem)) = [''Welcome'' \<mapsto> 1]"
  "lastFoundServer (stats (after_discovery mem)) =
     Some (scenario_info ''203.0.113.17'' 120 ''2025-01-01T00:00:05.120Z'')"
  "serverCache (after_discovery mem) = {''203.0.113.17''}"
proof -
  let ?s1 = "(initial_scanner default_config mem)
               \<lparr>stats := (stats (initial_scanner default_config mem))
                  \<lparr>totalScanned := totalScanned (stats (initial_scanner default_config mem)) + 1\<rparr>\<rparr>"
  have chk: "checkMinecraftServer scenario_parse (\<lambda>k. answered) ?s1 ''203.0.113.17'' 0 =
     (Some (scenario_info ''203.0.113.17'' 120 ''2025-01-01T00:00:05.120Z''),
      ?s1\<lparr>rateLimiter := (rateLimiter ?s1)(''203.0.113'' \<mapsto> 5120)\<rparr>,
      [Ping ''203.0.113.17''])"
    by (rule check_answered_from) (simp_all add: initial_scanner_fields)
  have eq: "after_discovery mem =
      (let s2 = saveServer True (?s1\<lparr>rateLimiter := (rateLimiter ?s1)(''203.0.113'' \<mapsto> 5120)\<rparr>)
                  (scenario_info ''203.0.113.17'' 120 ''2025-01-01T00:00:05.120Z'')
       in s2\<lparr>stats := (stats s2)\<lparr>totalFound := totalFound (stats s2) + 1\<rparr>\<rparr>)"
    unfolding after_discovery_def scanSingleServer_def Let_def chk by simp
  show "totalScanned (stats (after_discovery mem)) = 1"
    by (simp add: eq Let_def saveServer_def updateServerStats_counters initial_scanner_fields
        initial_stats_def)
  show "totalFound (stats (after_discovery mem)) = 1"
    by (simp add: eq Let_def saveServer_def updateServerStats_counters initial_scanner_fields
        initial_stats_def)
  show "avgResponseTime (stats (after_discovery mem)) = 0"
    by (simp add: eq Let_def saveServer_def updateServerStats_counters initial_scanner_fields
        initial_stats_def)
  show "popularMOTDs (stats (after_discovery mem)) = [''Welcome'' \<mapsto> 1]"
    by (simp add: eq Let_def saveServer_def updateServerStats_popularMOTDs initial_scanner_fields
        initial_stats_def scenario_info_def count_of_def)
  show "lastFoundServer (stats (after_discovery mem)) =
     Some (scenario_info ''203.0.113.17'' 120 ''2025-01-01T00:00:05.120Z'')"
    by (simp add: eq Let_def saveServer_def updateServerStats_def)
  show "serverCache (after_discovery mem) = {''203.0.113.17''}"
    by (simp add: eq Let_def saveServer_def initial_scanner_fields scenario_info_def)
qed

subsection \<open>Resetting the statistics\<close>

text \<open>
  Claim C9. \<open>resetStats\<close> sets the volatile counters to zero (scanned, duplicates, errors,
  time-outs, connection errors, and with them the gauge, the rates and the garbage-collection
  count), empties the per-session tallies (player-count buckets, MOTDs, last and best
  server), sets the start time to the clock reading of the call, and leaves total-found and
  the version and country tallies as they were. Nothing outside the statistics changes.
\<close>

theorem resetStats_zeroes_volatile_keeps_found:
  "totalScanned (stats (resetStats s now mem)) = 0
   \<and> duplicatesSkipped (stats (resetStats s now mem)) = 0
   \<and> errorsEncountered (stats (resetStats s now mem)) = 0
   \<and> timeoutCount (stats (resetStats s now mem)) = 0
   \<and> connectionErrors (stats (resetStats s now mem)) = 0
   \<and> activeConnections (stats (resetStats s now mem)) = 0
   \<and> uptime (stats (resetStats s now mem)) = 0
   \<and> avgScanRate (stats (resetStats s now mem)) = 0
   \<and> peakScanRate (stats (resetStats s now mem)) = 0
   \<and> avgResponseTime (stats (resetStats s now mem)) = 0
   \<and> successRate (stats (resetStats s now mem)) = 0
   \<and> gcCount (stats (resetStats s now mem)) = 0
   \<and> serversByPlayerCount (stats (resetStats s now mem)) = Map.empty
   \<and> popularMOTDs (stats (resetStats s now mem)) = Map.empty
   \<and> lastFoundServer (stats (resetStats s now mem)) = None
   \<and> bestServer (stats (resetStats s now mem)) = None
   \<and> startTime (stats (resetStats s now mem)) = Some now
   \<and> totalFound (stats (resetStats s now mem)) = totalFound (stats s)
   \<and> serversByVersion (stats (resetStats s now mem)) = serversByVersion (stats s)
   \<and> serversByCountry (stats (resetStats s now mem)) = serversByCountry (stats s)
   \<and> config (resetStats s now mem) = config s
   \<and> serverCache (resetStats s now mem) = serverCache s
   \<and> ipBlacklist (resetStats s now mem) = ipBlacklist s
   \<and> rateLimiter (resetStats s now mem) = rateLimiter s"
  by (simp add: resetStats_def)

theorem resetStats_zeroes_volatile_keeps_found_witness:
  "totalScanned (stats (after_discovery 0)) = 1
   \<and> totalScanned (stats (resetStats (after_discovery 0) 9000 0)) = 0
   \<and> popularMOTDs (stats (resetStats (after_discovery 0) 9000 0)) = Map.empty
   \<and> startTime (stats (resetStats (after_discovery 0) 9000 0)) = Some 9000
   \<and> totalFound (stats (resetStats (after_discovery 0) 9000 0)) = 1"
  using resetStats_zeroes_volatile_keeps_found[of "after_discovery 0" 9000 0]
  by (simp add: after_discovery_stats)

subsection \<open>The MOTD tally\<close>

lemma step_motd_inv:
  "motd_inv (popularMOTDs (stats s)) \<Longrightarrow> motd_inv (popularMOTDs (stats (step s e)))"
proof (cases e)
  case (Scan json_parse env files_ok addr)
  assume "motd_inv (popularMOTDs (stats s))"
  then show ?thesis
    using scanSingleServer_stats(4)[of json_parse env files_ok s addr] Scan
    by (cases "scanSingleServer json_parse env files_ok s addr") auto
next
  case (Initialize outputFile statsFile now)
  assume "motd_inv (popularMOTDs (stats s))"
  then show ?thesis using Initialize
    by (auto simp: initialize_def loadExistingData_def Let_def split: option.splits)
next
  case (ResetStats now mem)
  then show ?thesis by (simp add: resetStats_def motd_inv_def)
next
  case (UpdateStatistics now mem)
  assume "motd_inv (popularMOTDs (stats s))"
  then show ?thesis using UpdateStatistics by (simp add: updateStatistics_def Let_def)
next
  case (CleanupRateLimiter now)
  assume "motd_inv (popularMOTDs (stats s))"
  then show ?thesis using CleanupRateLimiter by (simp add: cleanupRateLimiter_def)
qed

lemma run_motd_inv:
  "motd_inv (popularMOTDs (stats s)) \<Longrightarrow> motd_inv (popularMOTDs (stats (run s events)))"
  unfolding run_def by (induction events arbitrary: s) (auto intro: step_motd_inv)

text \<open>
  Claim C10. In every state the scanner reaches from construction, through start-up,
  scans, resets, statistics updates and rate-limiter clean-ups in any order, each key of
  \<open>popularMOTDs\<close> is longer than five characters and each count is at most ten. A
  discovery whose MOTD has at most five characters leaves the map as it is, and so does
  one whose MOTD already stands at ten.
\<close>

theorem popularMOTDs_long_keys_counts_at_most_ten:
  "motd_inv (popularMOTDs (stats (run (initial_scanner cfg mem) events)))
   \<and> (length (motd info) \<le> 5 \<longrightarrow> popularMOTDs (updateServerStats st info) = popularMOTDs st)
   \<and> (popularMOTDs st (motd info) = Some 10 \<longrightarrow>
        popularMOTDs (updateServerStats st info) = popularMOTDs st)"
proof (intro conjI impI)
  have "motd_inv (popularMOTDs (stats (initial_scanner cfg mem)))"
    by (simp add: initial_scanner_def initial_stats_def motd_inv_def)
  then show "motd_inv (popularMOTDs (stats (run (initial_scanner cfg mem) events)))"
    by (rule run_motd_inv)
next
  assume "length (motd info) \<le> 5"
  then show "popularMOTDs (updateServerStats st info) = popularMOTDs st"
    by (simp add: updateServerStats_popularMOTDs)
next
  assume "popularMOTDs st (motd info) = Some 10"
  then show "popularMOTDs (updateServerStats st info) = popularMOTDs st"
    by (simp add: updateServerStats_popularMOTDs count_of_def)
qed

theorem popularMOTDs_long_keys_counts_at_most_ten_witness:
  "popularMOTDs (stats (run (initial_scanner default_config 0)
       [Scan scenario_parse (\<lambda>k. answered) True ''203.0.113.17''])) = [''Welcome'' \<mapsto> 1]
   \<and> motd_inv [''Welcome'' \<mapsto> 1]
   \<and> length (motd ((scenario_info ''203.0.113.17'' 120 [])\<lparr>motd := ''Hi''\<rparr>)) \<le> 5
   \<and> popularMOTDs (updateServerStats (stats (after_discovery 0))
         ((scenario_info ''203.0.113.17'' 120 [])\<lparr>motd := ''Hi''\<rparr>)) = [''Welcome'' \<mapsto> 1]
   \<and> popularMOTDs (updateServerStats ((stats (after_discovery 0))\<lparr>popularMOTDs := [''Welcome'' \<mapsto> 10]\<rparr>)
         (scenario_info ''203.0.113.17'' 120 [])) = [''Welcome'' \<mapsto> 10]"
proof -
  let ?run = "run (initial_scanner default_config 0)
                [Scan scenario_parse (\<lambda>k. answered) True ''203.0.113.17'']"
  let ?hi = "(scenario_info ''203.0.113.17'' 120 [])\<lparr>motd := ''Hi''\<rparr>"
  let ?st10 = "(stats (after_discovery 0))\<lparr>popularMOTDs := [''Welcome'' \<mapsto> 10]\<rparr>"
  note main = popularMOTDs_long_keys_counts_at_most_ten
  have r: "?run = after_discovery 0"
    by (simp add: run_def after_discovery_def)
  have m: "popularMOTDs (stats ?run) = [''Welcome'' \<mapsto> 1]"
    by (simp add: r after_discovery_stats)
  have inv: "motd_inv [''Welcome'' \<mapsto> 1]"
    using main[of default_config 0 "[Scan scenario_parse (\<lambda>k. answered) True ''203.0.113.17'']",
        THEN conjunct1] m by simp
  have short: "length (motd ?hi) \<le> 5" by simp
  have a: "popularMOTDs (updateServerStats (stats (after_discovery 0)) ?hi) = [''Welcome'' \<mapsto> 1]"
    using main[of _ _ _ ?hi "stats (after_discovery 0)", THEN conjunct2, THEN conjunct1, THEN mp,
        OF short]
    by (simp add: after_discovery_stats)
  have ten: "popularMOTDs ?st10 (motd (scenario_info ''203.0.113.17'' 120 [])) = Some 10"
    by (simp add: scenario_info_def)
  have b: "popularMOTDs (updateServerStats ?st10 (scenario_info ''203.0.113.17'' 120 []))
             = [''Welcome'' \<mapsto> 10]"
    using main[of _ _ _ "scenario_info ''203.0.113.17'' 120 []" ?st10, THEN conjunct2,
        THEN conjunct2, THEN mp, OF ten]
    by simp
  from m inv short a b show ?thesis by (intro conjI)
qed

subsection \<open>Found against scanned\<close>

lemma step_counters:
  assumes "is_scan_step e"
  shows "totalFound (stats (step s e)) + totalScanned (stats s)
           \<le> totalScanned (stats (step s e)) + totalFound (stats s)"
proof (cases e)
  case (Scan json_parse env files_ok addr)
  then show ?thesis
    using scanSingleServer_stats(1,2)[of json_parse env files_ok s addr]
    by (cases "scanSingleServer json_parse env files_ok s addr") auto
next
  case (UpdateStatistics now mem)
  then show ?thesis by (simp add: updateStatistics_def Let_def)
next
  case (CleanupRateLimiter now)
  then show ?thesis by (simp add: cleanupRateLimiter_def)
qed (use assms in auto)

lemma run_counters:
  "list_all is_scan_step events \<Longrightarrow>
     totalFound (stats (run s events)) + totalScanned (stats s)
       \<le> totalScanned (stats (run s events)) + totalFound (stats s)"
  unfolding run_def
proof (induction events arbitrary: s)
  case Nil
  then show ?case by simp
next
  case (Cons e es)
  from Cons.prems have e: "is_scan_step e" and es: "list_all is_scan_step es" by simp_all
  from Cons.IH[OF es, of "step s e"] step_counters[OF e, of s] show ?case by simp
qed

text \<open>
  Claim C7, as the code has it. Over any sequence of scans, statistics updates and
  rate-limiter clean-ups, the servers found grow by no more than the addresses scanned; so
  from a state with total-found at most total-scanned, and from the constructed state in
  particular, such a sequence keeps total-found at most total-scanned. Start-up loading and
  \<open>resetStats\<close> are outside this: they keep or load total-found while total-scanned is 0.
\<close>

theorem found_le_scanned_between_loads_and_resets:
  "list_all is_scan_step events \<Longrightarrow>
     totalFound (stats (run s events)) + totalScanned (stats s)
        \<le> totalScanned (stats (run s events)) + totalFound (stats s)
     \<and> (totalFound (stats s) \<le> totalScanned (stats s) \<longrightarrow>
          totalFound (stats (run s events)) \<le> totalScanned (stats (run s events)))"
  using run_counters[of events s] by auto

theorem found_le_scanned_between_loads_and_resets_witness:
  "list_all is_scan_step [Scan scenario_parse (\<lambda>k. answered) True ''203.0.113.17'', UpdateStatistics 6000 0]
   \<and> totalFound (stats (initial_scanner default_config 0)) \<le> totalScanned (stats (initial_scanner default_config 0))
   \<and> totalFound (stats (run (initial_scanner default_config 0)
          [Scan scenario_parse (\<lambda>k. answered) True ''203.0.113.17'', UpdateStatistics 6000 0])) = 1
   \<and> totalScanned (stats (run (initial_scanner default_config 0)
          [Scan scenario_parse (\<lambda>k. answered) True ''203.0.113.17'', UpdateStatistics 6000 0])) = 1"
proof -
  let ?es = "[Scan scenario_parse (\<lambda>k. answered) True ''203.0.113.17'', UpdateStatistics 6000 0]"
  let ?s0 = "initial_scanner default_config 0"
  have sc: "list_all is_scan_step ?es" by simp
  have init: "totalFound (stats ?s0) \<le> totalScanned (stats ?s0)"
    by (simp add: initial_scanner_fields initial_stats_def)
  have r: "run ?s0 ?es = updateStatistics (after_discovery 0) 6000 0"
    by (simp add: run_def after_discovery_def)
  have f: "totalFound (stats (run ?s0 ?es)) = 1"
    by (simp add: r updateStatistics_def Let_def after_discovery_stats)
  have "totalFound (stats (run ?s0 ?es)) \<le> totalScanned (stats (run ?s0 ?es))"
    using found_le_scanned_between_loads_and_resets[OF sc, of ?s0] init by blast
  moreover have "totalScanned (stats (run ?s0 ?es)) \<le> 1"
    by (simp add: r updateStatistics_def Let_def after_discovery_stats)
  ultimately have n: "totalScanned (stats (run ?s0 ?es)) = 1" using f by simp
  from sc init f n show ?thesis by (intro conjI)
qed

text \<open>
  Claim C7 as stated fails in both places it names. Start-up with a saved total-found of 5
  gives total-found 5 against total-scanned 0; a reset after one discovery gives 1 against 0.
\<close>

theorem found_exceeds_scanned_counterexample:
  "totalScanned (stats (run (initial_scanner default_config 0)
       [Initialize (Some [])
          (Some \<lparr>saved_totalFound = Some 5, saved_serversByVersion = None,
                  saved_serversByCountry = None\<rparr>) 1000])) = 0
   \<and> totalFound (stats (run (initial_scanner default_config 0)
       [Initialize (Some [])
          (Some \<lparr>saved_totalFound = Some 5, saved_serversByVersion = None,
                  saved_serversByCountry = None\<rparr>) 1000])) = 5
   \<and> \<not> totalFound (stats (run (initial_scanner default_config 0)
       [Initialize (Some [])
          (Some \<lparr>saved_totalFound = Some 5, saved_serversByVersion = None,
                  saved_serversByCountry = None\<rparr>) 1000]))
       \<le> totalScanned (stats (run (initial_scanner default_config 0)
       [Initialize (Some [])
          (Some \<lparr>saved_totalFound = Some 5, saved_serversByVersion = None,
                  saved_serversByCountry = None\<rparr>) 1000]))
   \<and> totalScanned (stats (run (initial_scanner default_config 0)
       [Scan scenario_parse (\<lambda>k. answered) True ''203.0.113.17'', ResetStats 9000 0])) = 0
   \<and> totalFound (stats (run (initial_scanner default_config 0)
       [Scan scenario_parse (\<lambda>k. answered) True ''203.0.113.17'', ResetStats 9000 0])) = 1
   \<and> \<not> totalFound (stats (run (initial_scanner default_config 0)
       [Scan scenario_parse (\<lambda>k. answered) True ''203.0.113.17'', ResetStats 9000 0]))
       \<le> totalScanned (stats (run (initial_scanner default_config 0)
       [Scan scenario_parse (\<lambda>k. answered) True ''203.0.113.17'', ResetStats 9000 0]))"
proof -
  have r: "run (initial_scanner default_config 0)
       [Scan scenario_parse (\<lambda>k. answered) True ''203.0.113.17'', ResetStats 9000 0]
       = resetStats (after_discovery 0) 9000 0"
    by (simp add: run_def after_discovery_def)
  show ?thesis
    unfolding r
    by (simp add: run_def initialize_def loadExistingData_def Let_def initial_scanner_fields
        initial_stats_def resetStats_def after_discovery_stats trim_def)
qed

subsection \<open>The successful probe\<close>






subsection \<open>The average response time\<close>

text \<open>
  Claim C6 does not hold of the code: no statement assigns \<open>stats.avgResponseTime\<close>
  outside the constructor and \<open>resetStats\<close>, which set it to 0. A scan leaves the field
  as it was, whatever the probe measured.
\<close>

theorem scan_leaves_avgResponseTime:
  "avgResponseTime (stats (fst (scanSingleServer json_parse env files_ok s addr))) =
     avgResponseTime (stats s)"
  using scanSingleServer_stats(3)[of json_parse env files_ok s addr]
  by (cases "scanSingleServer json_parse env files_ok s addr") simp

theorem scan_leaves_avgResponseTime_witness:
  "map_option responseTime (lastFoundServer (stats (after_discovery 0))) = Some 120
   \<and> avgResponseTime (stats (initial_scanner default_config 0)) = 0
   \<and> avgResponseTime (stats (after_discovery 0)) = 0
   \<and> (9 / 10) * avgResponseTime (stats (initial_scanner default_config 0)) + (1 / 10) * 120 = 12"
  using scan_leaves_avgResponseTime[of scenario_parse "\<lambda>k. answered" True
      "initial_scanner default_config 0" "''203.0.113.17''"]
  by (simp add: after_discovery_def[symmetric] after_discovery_stats scenario_info_def
      initial_scanner_fields initial_stats_def)

subsection \<open>Retries\<close>

lemma probe_fails_resolves_null:
  "probe_fails json_parse e \<Longrightarrow> performServerPing json_parse e = Inr None"
  by (cases e) simp_all

lemma attempt_from_failed:
  assumes "probe_fails json_parse (ping (env k))"
  shows "attempt_from json_parse env s addr k =
     (None,
      finally_block
        (if ping (env k) = TimedOut
         then s\<lparr>stats := (stats s)\<lparr>activeConnections := activeConnections (stats s) + 1,
                                      timeoutCount := timeoutCount (stats s) + 1\<rparr>\<rparr>
         else s\<lparr>stats := (stats s)\<lparr>activeConnections := activeConnections (stats s) + 1\<rparr>\<rparr>)
        addr (now_finally (env k)),
      [Ping addr])"
  using attempt_from_resolved[where env = env and k = k and json_parse = json_parse
      and serverInfo = None and s = s and addr = addr, OF probe_fails_resolves_null[OF assms]]
  by (simp add: Let_def)

text \<open>
  Claim C3 does not hold of the code. A probe that fails, by time-out, socket error, a
  throwing write or a response that does not parse, makes \<open>performServerPing\<close> resolve
  with \<open>null\<close>; the call then returns \<open>null\<close> after that one ping: no delay, no second
  attempt, and the blacklist as it was. The retry branch is reached only by an exception.
\<close>

theorem failed_probe_no_retry_no_blacklist:
  assumes "admit s env addr retryCount = Admitted"
    and "probe_fails json_parse (ping (env retryCount))"
  shows "fst (checkMinecraftServer json_parse env s addr retryCount) = None
     \<and> snd (snd (checkMinecraftServer json_parse env s addr retryCount)) = [Ping addr]
     \<and> ipBlacklist (fst (snd (checkMinecraftServer json_parse env s addr retryCount))) = ipBlacklist s"
  using assms
  by (simp add: checkMinecraftServer_def attempt_from_failed finally_block_frame)

theorem failed_probe_no_retry_no_blacklist_witness:
  "admit (initial_scanner default_config 0) (\<lambda>k. refused) ''203.0.113.17'' 0 = Admitted
   \<and> probe_fails scenario_parse (ping refused)
   \<and> fst (checkMinecraftServer scenario_parse (\<lambda>k. refused) (initial_scanner default_config 0)
            ''203.0.113.17'' 0) = None
   \<and> snd (snd (checkMinecraftServer scenario_parse (\<lambda>k. refused) (initial_scanner default_config 0)
            ''203.0.113.17'' 0)) = [Ping ''203.0.113.17'']
   \<and> ipBlacklist (fst (snd (checkMinecraftServer scenario_parse (\<lambda>k. refused)
            (initial_scanner default_config 0) ''203.0.113.17'' 0))) = {}"
proof -
  have adm: "admit (initial_scanner default_config 0) (\<lambda>k. refused) ''203.0.113.17'' 0 = Admitted"
    by (simp add: admit_def initial_scanner_fields default_config_def isRateLimited_def)
  have pf: "probe_fails scenario_parse (ping ((\<lambda>k. refused) 0))"
    by (simp add: refused_def)
  from failed_probe_no_retry_no_blacklist[OF adm pf] adm pf
  show ?thesis by (simp add: initial_scanner_fields)
qed

text \<open>
  The retry branch at work, for comparison: when the ping's set-up throws on every
  attempt, the default two attempts are made, 500 ms and 1000 ms of back-off follow them,
  and the third call finds the retry count at \<open>maxRetries\<close> and blacklists the address.
\<close>

lemma retry_chain_on_exceptions:
  "checkMinecraftServer scenario_parse (\<lambda>k. setup_throws) (initial_scanner default_config 0)
     ''203.0.113.17'' 0 =
   (None,
    (initial_scanner default_config 0)
      \<lparr>stats := (initial_stats 0)\<lparr>connectionErrors := 2\<rparr>,
        ipBlacklist := {''203.0.113.17''},
        rateLimiter := [''203.0.113'' \<mapsto> 5003]\<rparr>,
    [Ping ''203.0.113.17'', Delay 500, Ping ''203.0.113.17'', Delay 1000])"
proof -
  let ?s0 = "initial_scanner default_config 0"
  have adm0: "admit ?s0 (\<lambda>k. setup_throws) ''203.0.113.17'' 0 = Admitted"
    by (simp add: admit_def initial_scanner_fields default_config_def isRateLimited_def)
  show ?thesis
    unfolding checkMinecraftServer_def adm0
    apply simp
    apply (subst attempt_from.simps)
    apply (simp add: setup_throws_def refused_def Let_def admit_def initial_scanner_fields
        default_config_def isRateLimited_def subnet_of_203)
    apply (subst attempt_from.simps)
    apply (simp add: Let_def admit_def finally_block_def updateRateLimit_def initial_scanner_def
        default_config_def isRateLimited_def subnet_of_203 initial_stats_def)
    done
qed

subsection \<open>Admission\<close>











subsection \<open>Rejection sampling\<close>

lemma four_or_more:
  "4 \<le> length rs \<Longrightarrow> \<exists>r1 r2 r3 r4 rs'. rs = r1 # r2 # r3 # r4 # rs'"
  by (cases rs; simp; cases "tl rs"; simp; cases "tl (tl rs)"; simp; cases "tl (tl (tl rs))"; simp)

lemma attempt_at_0: "attempt_at (r1 # r2 # r3 # r4 # rs) 0 = sample_ip r1 r2 r3 r4"
  by (simp add: attempt_at_def)

lemma attempt_at_Suc: "attempt_at (r1 # r2 # r3 # r4 # rs) (Suc k) = attempt_at rs k"
proof -
  have "4 * Suc k = Suc (Suc (Suc (Suc (4 * k))))" by simp
  then show ?thesis by (simp add: attempt_at_def numeral_3_eq_3)
qed

lemma drop_four_more:
  "drop (4 * (Suc n + 1)) (r1 # r2 # r3 # r4 # rs) = drop (4 * (n + 1)) rs"
proof -
  have "4 * (Suc n + 1) = Suc (Suc (Suc (Suc (4 * (n + 1)))))" by simp
  then show ?thesis by (simp only: drop_Suc_Cons)
qed

lemma replicate_four_more:
  "replicate (4 * Suc m) r = r # r # r # r # replicate (4 * m) r"
proof -
  have "4 * Suc m = Suc (Suc (Suc (Suc (4 * m))))" by simp
  then show ?thesis by (simp only: replicate_Suc)
qed

lemma generateRandomPublicIP_first_accepted:
  "4 * (n + 1) \<le> length rs \<Longrightarrow> (\<forall>k<n. rejected s (attempt_at rs k)) \<Longrightarrow>
   \<not> rejected s (attempt_at rs n) \<Longrightarrow>
   generateRandomPublicIP s rs = Some (attempt_at rs n, drop (4 * (n + 1)) rs)"
proof (induction n arbitrary: rs)
  case 0
  then obtain r1 r2 r3 r4 rs' where rs: "rs = r1 # r2 # r3 # r4 # rs'"
    using four_or_more[of rs] by auto
  with 0 show ?case by (simp add: attempt_at_0 Let_def)
next
  case (Suc n)
  then obtain r1 r2 r3 r4 rs' where rs: "rs = r1 # r2 # r3 # r4 # rs'"
    using four_or_more[of rs] by auto
  from Suc.prems(2) have first: "rejected s (attempt_at rs 0)" by simp
  have len: "4 * (n + 1) \<le> length rs'" using Suc.prems(1) rs by simp
  have rej: "\<forall>k<n. rejected s (attempt_at rs' k)"
  proof (intro allI impI)
    fix k assume "k < n"
    then have "rejected s (attempt_at rs (Suc k))" using Suc.prems(2) by simp
    then show "rejected s (attempt_at rs' k)" by (simp add: rs attempt_at_Suc)
  qed
  have acc: "\<not> rejected s (attempt_at rs' n)"
    using Suc.prems(3) by (simp add: rs attempt_at_Suc)
  have "generateRandomPublicIP s rs = generateRandomPublicIP s rs'"
    using first by (simp add: rs attempt_at_0 Let_def)
  also have "\<dots> = Some (attempt_at rs' n, drop (4 * (n + 1)) rs')"
    by (rule Suc.IH[OF len rej acc])
  also have "attempt_at rs' n = attempt_at rs (Suc n)"
    by (simp add: rs attempt_at_Suc)
  also have "drop (4 * (n + 1)) rs' = drop (4 * (Suc n + 1)) rs"
    unfolding rs by (rule drop_four_more[symmetric])
  finally show ?case .
qed

lemma generateRandomPublicIP_all_rejected:
  "(\<forall>k. 4 * (k + 1) \<le> length rs \<longrightarrow> rejected s (attempt_at rs k)) \<Longrightarrow>
   generateRandomPublicIP s rs = None"
proof (induction s rs rule: generateRandomPublicIP.induct)
  case (1 s r1 r2 r3 r4 rs)
  from "1.prems"[rule_format, of 0] have first: "rejected s (sample_ip r1 r2 r3 r4)"
    by (simp add: attempt_at_0)
  have "\<forall>k. 4 * (k + 1) \<le> length rs \<longrightarrow> rejected s (attempt_at rs k)"
  proof (intro allI impI)
    fix k assume "4 * (k + 1) \<le> length rs"
    then have "rejected s (attempt_at (r1 # r2 # r3 # r4 # rs) (Suc k))"
      using "1.prems"[rule_format, of "Suc k"] by simp
    then show "rejected s (attempt_at rs k)" by (simp add: attempt_at_Suc)
  qed
  with "1.IH"[OF refl first] first show ?case by (simp add: Let_def)
qed simp_all

lemma generateRandomPublicIP_accepts:
  "generateRandomPublicIP s rs = Some (addr, rest) \<Longrightarrow> \<not> rejected s addr"
  by (induction s rs rule: generateRandomPublicIP.induct) (auto simp: Let_def split: if_splits)

lemma random_below_256_example:
  "random_below 256 (5 / 128) = 10" "random_below 256 (1 / 32) = 8"
  by (simp_all add: random_below_def)

lemma show_nat_small: "n < 10 \<Longrightarrow> show_nat n = [digit_char n]"
  by (simp add: show_nat.simps)

lemma show_nat_examples: "show_nat 10 = ''10''" "show_nat 8 = ''8''"
  by code_simp+

lemma sample_ip_examples:
  "sample_ip (5 / 128) (5 / 128) (5 / 128) (5 / 128) = ''10.10.10.10''"
  "sample_ip (1 / 32) (1 / 32) (1 / 32) (1 / 32) = ''8.8.8.8''"
  by (simp_all add: sample_ip_def random_below_256_example show_nat_examples)

lemmas address_eval =
  isPublicIP_def isValidIP_def regex_dotted_quad_def is_digit_def octet_in_range_def parseInt_def
  dec_val_def digit_val_def Number_def excludedChecks_def part_at_def

lemma public_examples: "\<not> isPublicIP ''10.10.10.10''" "isPublicIP ''8.8.8.8''"
  by (simp_all add: address_eval)

text \<open>
  Claim C8, as the code has it. The rejection loop has no attempt bound. If the first \<open>n\<close>
  samples are rejected (not public, or blacklisted, or seen) and the next is not, the draw
  returns that sample, for any \<open>n\<close>; if every sample the random numbers give is rejected,
  the draw has not returned when they are used up. The loop never gives up, and what it
  returns is never a rejected address.
\<close>

theorem rejection_sampling_unbounded:
  "(4 * (n + 1) \<le> length rs \<and> (\<forall>k<n. rejected s (attempt_at rs k))
      \<and> \<not> rejected s (attempt_at rs n) \<longrightarrow>
      generateRandomPublicIP s rs = Some (attempt_at rs n, drop (4 * (n + 1)) rs))
   \<and> ((\<forall>k. 4 * (k + 1) \<le> length rs \<longrightarrow> rejected s (attempt_at rs k)) \<longrightarrow>
      generateRandomPublicIP s rs = None)
   \<and> (generateRandomPublicIP s rs = Some (addr, rest) \<longrightarrow>
      isPublicIP addr \<and> addr \<notin> ipBlacklist s \<and> addr \<notin> serverCache s)"
  using generateRandomPublicIP_first_accepted[of n rs s]
    generateRandomPublicIP_all_rejected[of rs s]
    generateRandomPublicIP_accepts[of s rs addr rest]
  by (auto simp: rejected_def)

lemma attempt_at_replicate:
  "4 * (k + 1) \<le> m \<Longrightarrow> attempt_at (replicate m r @ rs) k = sample_ip r r r r"
  by (simp add: attempt_at_def nth_append)

theorem rejection_sampling_unbounded_witness:
  "generateRandomPublicIP (initial_scanner default_config 0)
      (replicate 128 (5 / 128) @ replicate 4 (1 / 32)) = Some (''8.8.8.8'', [])
   \<and> attempt_at (replicate 128 (5 / 128) @ replicate 4 (1 / 32)) 32 = ''8.8.8.8''
   \<and> \<not> rejected (initial_scanner default_config 0) ''8.8.8.8''
   \<and> rejected (initial_scanner default_config 0) ''10.10.10.10''
   \<and> generateRandomPublicIP (initial_scanner default_config 0) (replicate 128 (5 / 128)) = None"
proof -
  let ?init = "initial_scanner default_config 0"
  let ?rs = "replicate 128 (5 / 128) @ replicate 4 (1 / 32) :: rat list"
  have rej: "rejected ?init ''10.10.10.10''"
    by (simp add: rejected_def public_examples)
  have acc: "\<not> rejected ?init ''8.8.8.8''"
    by (simp add: rejected_def public_examples initial_scanner_fields)
  have early: "\<forall>k<32. rejected ?init (attempt_at ?rs k)"
    using rej by (simp add: attempt_at_replicate sample_ip_examples)
  have last: "attempt_at ?rs 32 = ''8.8.8.8''"
    by (simp add: attempt_at_def nth_append sample_ip_examples)
  have len: "4 * (32 + 1) \<le> length ?rs" by simp
  have r: "generateRandomPublicIP ?init ?rs = Some (''8.8.8.8'', [])"
    using rejection_sampling_unbounded[of 32 ?rs ?init, THEN conjunct1] len early acc last
    by simp
  have all: "\<forall>k. 4 * (k + 1) \<le> length (replicate 128 (5 / 128 :: rat)) \<longrightarrow>
              rejected ?init (attempt_at (replicate 128 (5 / 128)) k)"
    using rej attempt_at_replicate[of _ 128 "5 / 128" "[]"]
    by (simp add: sample_ip_examples)
  have n: "generateRandomPublicIP ?init (replicate 128 (5 / 128)) = None"
    using rejection_sampling_unbounded[of _ "replicate 128 (5 / 128)" ?init,
        THEN conjunct2, THEN conjunct1] all by blast
  from r last acc rej n show ?thesis by (intro conjI)
qed

text \<open>
  Claim C8 as stated fails: after 32 rejected samples the draw has neither returned nor
  given up; it returns the 33rd sample.
\<close>

theorem thirty_third_sample_counterexample:
  "generateRandomPublicIP (initial_scanner default_config 0) (replicate 128 (5 / 128)) = None
   \<and> generateRandomPublicIP (initial_scanner default_config 0)
        (replicate 128 (5 / 128) @ [1 / 32, 1 / 32, 1 / 32, 1 / 32]) = Some (''8.8.8.8'', [])"
proof -
  let ?init = "initial_scanner default_config 0"
  have rej: "rejected ?init ''10.10.10.10''"
    by (simp add: rejected_def public_examples)
  have acc: "\<not> rejected ?init ''8.8.8.8''"
    by (simp add: rejected_def public_examples initial_scanner_fields)
  have skip: "generateRandomPublicIP ?init (replicate (4 * m) (5 / 128) @ rs)
                = generateRandomPublicIP ?init rs" for m rs
  proof (induction m)
    case 0
    show ?case by simp
  next
    case (Suc m)
    show ?case
      unfolding replicate_four_more
      using Suc by (simp add: sample_ip_examples rej Let_def)
  qed
  have a: "generateRandomPublicIP ?init (replicate 128 (5 / 128)) = None"
    using skip[of 32 "[]"] by simp
  have b: "generateRandomPublicIP ?init (replicate 128 (5 / 128) @ [1 / 32, 1 / 32, 1 / 32, 1 / 32])
             = Some (''8.8.8.8'', [])"
    using skip[of 32 "[1 / 32, 1 / 32, 1 / 32, 1 / 32]"]
    by (simp add: sample_ip_examples acc Let_def)
  from a b show ?thesis by (intro conjI)
qed

subsection \<open>The three strategies of the smart draw\<close>











lemma split_on_nonempty: "split_on sep s \<noteq> []"
  by (induction s) (auto split: list.splits)
















end
